theory Spec2Isabelle
  imports Main "HOL-Library.Sublist" "HOL-Library.AList"
begin


section \<open>JavaScript values\<close>

text \<open>
  The values docker-server.js inspects dynamically (request bodies, statement fields,
  thrown errors). Numbers are the integral ones plus NaN; the code only ever asks a
  number for its truthiness and its \<open>typeof\<close>. A Buffer is its byte sequence. An object
  is its own properties in enumeration order.
\<close>

datatype jsval =
    JUndefined
  | JNull
  | JBool bool
  | JNum int
  | JNaN
  | JStr string
  | JBuffer "nat list"
  | JArr "jsval list"
  | JObj "(string \<times> jsval) list"

text \<open>Truthiness, as \<open>if (v)\<close>, \<open>v && ...\<close> and \<open>v || ...\<close> test it.\<close>

fun truthy :: "jsval \<Rightarrow> bool" where
  "truthy JUndefined = False"
| "truthy JNull = False"
| "truthy (JBool b) = b"
| "truthy (JNum n) = (n \<noteq> 0)"
| "truthy JNaN = False"
| "truthy (JStr s) = (s \<noteq> [])"
| "truthy (JBuffer bs) = True"
| "truthy (JArr xs) = True"
| "truthy (JObj kvs) = True"

datatype jstype = TUndefined | TObject | TBoolean | TNumber | TString

fun typeof :: "jsval \<Rightarrow> jstype" where
  "typeof JUndefined = TUndefined"
| "typeof JNull = TObject"
| "typeof (JBool b) = TBoolean"
| "typeof (JNum n) = TNumber"
| "typeof JNaN = TNumber"
| "typeof (JStr s) = TString"
| "typeof (JBuffer bs) = TObject"
| "typeof (JArr xs) = TObject"
| "typeof (JObj kvs) = TObject"

fun isBuffer :: "jsval \<Rightarrow> bool" where
  "isBuffer (JBuffer bs) = True"
| "isBuffer v = False"

fun isArray :: "jsval \<Rightarrow> bool" where
  "isArray (JArr xs) = True"
| "isArray v = False"

text \<open>
  A thrown value is any JavaScript value. The TypeError the runtime raises when a
  property of \<open>null\<close>/\<open>undefined\<close> is read, a non-function is called or a non-iterable is
  spread is an object like any other error, and so is a RangeError.
\<close>

definition TypeError :: "string \<Rightarrow> jsval" where
  "TypeError msg = JObj [(''name'', JStr ''TypeError''), (''message'', JStr msg)]"

definition RangeError :: "string \<Rightarrow> jsval" where
  "RangeError msg = JObj [(''name'', JStr ''RangeError''), (''message'', JStr msg)]"

text \<open>
  Property read \<open>v.k\<close>: raises on \<open>null\<close> and \<open>undefined\<close>, finds an own property of an
  object, and is \<open>undefined\<close> on everything else the model distinguishes.
\<close>

fun get_prop :: "jsval \<Rightarrow> string \<Rightarrow> jsval + jsval" where
  "get_prop JUndefined k = Inl (TypeError ''Cannot read properties of undefined'')"
| "get_prop JNull k = Inl (TypeError ''Cannot read properties of null'')"
| "get_prop (JObj kvs) k = Inr (case map_of kvs k of Some v \<Rightarrow> v | None \<Rightarrow> JUndefined)"
| "get_prop v k = Inr JUndefined"

text \<open>\<open>String.prototype.includes\<close> and \<open>startsWith\<close> on byte strings.\<close>

fun str_includes :: "string \<Rightarrow> string \<Rightarrow> bool" where
  "str_includes [] needle = (needle = [])"
| "str_includes (c # cs) needle = (prefix needle (c # cs) \<or> str_includes cs needle)"

definition startsWith :: "string \<Rightarrow> string \<Rightarrow> bool" where
  "startsWith s p = prefix p s"

text \<open>\<open>Array.prototype.join\<close> on strings.\<close>

fun join_with :: "string \<Rightarrow> string list \<Rightarrow> string" where
  "join_with sep [] = []"
| "join_with sep [x] = x"
| "join_with sep (x # y # ys) = x @ sep @ join_with sep (y # ys)"

text \<open>\<open>String.prototype.split\<close> at a one-character separator.\<close>

fun split_on :: "char \<Rightarrow> string \<Rightarrow> string list" where
  "split_on d [] = [[]]"
| "split_on d (c # cs) =
     (if c = d then [] # split_on d cs
      else (case split_on d cs of [] \<Rightarrow> [[c]] | l # ls \<Rightarrow> (c # l) # ls))"

text \<open>
  \<open>Number.prototype.toString(radix)\<close> on a non-negative integer, for a radix from 2 to
  36 (any other radix is a RangeError in the source language and gives no digits here).
\<close>

definition digit_char :: "nat \<Rightarrow> char" where
  "digit_char d = ''0123456789abcdefghijklmnopqrstuvwxyz'' ! (d mod 36)"

function toString_radix :: "nat \<Rightarrow> nat \<Rightarrow> string" where
  "toString_radix radix n =
     (if radix < 2 \<or> 36 < radix then []
      else if n < radix then [digit_char n]
      else toString_radix radix (n div radix) @ [digit_char (n mod radix)])"
  by pat_completeness auto
termination
  by (relation "measure snd") auto

declare toString_radix.simps [simp del]

text \<open>The two lower-case hexadecimal digits of a byte.\<close>

definition hex_byte :: "nat \<Rightarrow> string" where
  "hex_byte b = [digit_char (b div 16 mod 16), digit_char (b mod 16)]"


section \<open>Logging\<close>

text \<open>
  \<open>logMessage(level, message, data)\<close> prints when the level's rank is at most
  \<open>CURRENT_LOG_LEVEL\<close>. The console is the list of printed entries; a message is
  identified by the call site that produces it, with the data it is given.
\<close>

datatype log_level = LError | LWarn | LInfo | LDebug

fun LOG_LEVELS :: "log_level \<Rightarrow> int" where
  "LOG_LEVELS LError = 0"
| "LOG_LEVELS LWarn = 1"
| "LOG_LEVELS LInfo = 2"
| "LOG_LEVELS LDebug = 3"

datatype log_event =
    InitSqlite
  | BatchStart nat
  | SqlRunError jsval jsval "jsval list"
  | SqlQueryError jsval jsval "jsval list"
  | SqlExecError jsval jsval
  | BatchRollback jsval
  | RollbackFailed jsval
  | ServerError string int string jsval
  | FirstRequestCheck
  | DbInitError jsval
  | MiddlewareError jsval
  | MultipartDetected string
  | MultipartSaved string
  | MultipartSaveFailed jsval
  | CleanupTempFile jsval
  | CleanupFailed jsval jsval
  | MultipartRequestError jsval

type_synonym console = "(log_level \<times> log_event) list"

definition logMessage :: "int \<Rightarrow> log_level \<Rightarrow> log_event \<Rightarrow> console \<Rightarrow> console" where
  "logMessage CURRENT_LOG_LEVEL level ev out =
     (if LOG_LEVELS level \<le> CURRENT_LOG_LEVEL then out @ [(level, ev)] else out)"


section \<open>Requests and responses of the streaming server\<close>

record request_env =
  ENCRYPTION_SECRET :: string

record express_req =
  req_method :: string
  req_path :: string
  req_originalUrl :: string
  req_headers :: "(string \<times> string) list"
  req_body :: jsval
  req_rawBody :: jsval
  req_tempFilePath :: jsval
  req_encrypted :: bool
  req_env :: "request_env option"

text \<open>\<open>req.headers[name]\<close>: \<open>undefined\<close> when the header is absent.\<close>

definition header :: "express_req \<Rightarrow> string \<Rightarrow> string option" where
  "header req name = map_of (req_headers req) name"

datatype res_body = NoBody | JsonBody jsval | TextBody string | BytesBody "nat list"

record express_res =
  res_statusCode :: int
  res_headers :: "(string \<times> string) list"
  res_body :: res_body
  res_ended :: bool

definition setHeader :: "string \<Rightarrow> string \<Rightarrow> express_res \<Rightarrow> express_res" where
  "setHeader name v res = res\<lparr>res_headers := AList.update name v (res_headers res)\<rparr>"

definition getHeader :: "express_res \<Rightarrow> string \<Rightarrow> string option" where
  "getHeader res name = map_of (res_headers res) name"

definition new_response :: express_res where
  "new_response = \<lparr>res_statusCode = 200, res_headers = [], res_body = NoBody, res_ended = False\<rparr>"

text \<open>
  Sending the response. The server runs on Express 4 (its routes use the patterns \<open>*\<close>
  and \<open>/dav*\<close>). There \<open>res.status(code)\<close> only stores the code, and the head is
  written by \<open>res.end\<close>, which \<open>res.json\<close> reaches through \<open>res.send\<close>. Writing the head
  raises once a response has been sent, takes the code through \<open>statusCode |= 0\<close> and
  raises a RangeError unless the result lies between 100 and 999.
\<close>

definition to_int32 :: "int \<Rightarrow> int" where
  "to_int32 n = (n + 2147483648) mod 4294967296 - 2147483648"

definition write_head :: "express_res \<Rightarrow> jsval + int" where
  "write_head res =
     (let code = to_int32 (res_statusCode res) in
      if res_ended res then
        Inl (JObj [(''name'', JStr ''Error''), (''code'', JStr ''ERR_HTTP_HEADERS_SENT'')])
      else if code < 100 \<or> 999 < code then
        Inl (RangeError ''ERR_HTTP_INVALID_STATUS_CODE'')
      else Inr code)"

text \<open>\<open>res.end()\<close> without data.\<close>

definition res_end :: "express_res \<Rightarrow> jsval + express_res" where
  "res_end res =
     (case write_head res of
        Inl error \<Rightarrow> Inl error
      | Inr code \<Rightarrow> Inr (res\<lparr>res_statusCode := code, res_ended := True\<rparr>))"

text \<open>
  \<open>res.json(v)\<close>. The framework first turns the answer to a conditional \<open>GET\<close> or
  \<open>HEAD\<close> into a 304 when the status is of the 2xx class or 304 and the request
  headers show the client's copy to be fresh (\<open>fresh\<close>, the library's decision, is a
  parameter). It empties the body for the statuses 204, 205 and 304 and sends none on a
  \<open>HEAD\<close>; the runtime drops the body of an informational status, of 204 and of 304.
\<close>

definition res_json ::
  "(express_req \<Rightarrow> express_res \<Rightarrow> bool) \<Rightarrow> express_req \<Rightarrow> jsval \<Rightarrow> express_res
     \<Rightarrow> jsval + express_res" where
  "res_json fresh req v res =
     (let status = res_statusCode res;
          res1 = (if (req_method req = ''GET'' \<or> req_method req = ''HEAD'')
                     \<and> ((200 \<le> status \<and> status < 300) \<or> status = 304) \<and> fresh req res
                  then res\<lparr>res_statusCode := 304\<rparr> else res);
          emptied = (res_statusCode res1 = 204 \<or> res_statusCode res1 = 205
                     \<or> res_statusCode res1 = 304 \<or> req_method req = ''HEAD'')
      in case write_head res1 of
           Inl error \<Rightarrow> Inl error
         | Inr code \<Rightarrow>
             Inr (res1\<lparr>res_statusCode := code,
                       res_body := (if emptied \<or> (100 \<le> code \<and> code \<le> 199) \<or> code = 204
                                       \<or> code = 304
                                    then NoBody else JsonBody v),
                       res_ended := True\<rparr>))"

text \<open>What a middleware does with the request: pass it on, pass an error on, or answer.\<close>

datatype mw_outcome =
    Next express_req
  | NextError jsval express_req
  | Responded express_res


section \<open>SQLiteAdapter\<close>

text \<open>
  The embedded engine is a library; the adapter reaches it through the four methods of
  the connection object: \<open>exec(sql)\<close>, \<open>run(sql, ...params)\<close>, \<open>all(sql, ...params)\<close>
  and \<open>get(sql, ...params)\<close>. Each takes the engine state to the new state and either
  the value it resolves to or the error it rejects with.
\<close>

type_synonym 's engine_result = "'s \<times> (jsval + jsval)"

record 's engine =
  db_exec :: "jsval \<Rightarrow> 's \<Rightarrow> 's engine_result"
  db_run :: "jsval \<Rightarrow> jsval list \<Rightarrow> 's \<Rightarrow> 's engine_result"
  db_all :: "jsval \<Rightarrow> jsval list \<Rightarrow> 's \<Rightarrow> 's engine_result"
  db_get :: "jsval \<Rightarrow> jsval list \<Rightarrow> 's \<Rightarrow> 's engine_result"

text \<open>\<open>this.db\<close> is \<open>null\<close> until \<open>init()\<close> has opened the connection.\<close>

record 's adapter =
  dbPath :: string
  db :: "'s engine option"

text \<open>A method call on the connection: a TypeError when the connection is \<open>null\<close>.\<close>

definition null_db_error :: jsval where
  "null_db_error = TypeError ''Cannot read properties of null''"

definition call_exec :: "'s engine option \<Rightarrow> jsval \<Rightarrow> 's \<Rightarrow> 's engine_result" where
  "call_exec h sql s = (case h of None \<Rightarrow> (s, Inl null_db_error) | Some eng \<Rightarrow> db_exec eng sql s)"

definition call_run :: "'s engine option \<Rightarrow> jsval \<Rightarrow> jsval list \<Rightarrow> 's \<Rightarrow> 's engine_result" where
  "call_run h sql ps s = (case h of None \<Rightarrow> (s, Inl null_db_error) | Some eng \<Rightarrow> db_run eng sql ps s)"

definition call_all :: "'s engine option \<Rightarrow> jsval \<Rightarrow> jsval list \<Rightarrow> 's \<Rightarrow> 's engine_result" where
  "call_all h sql ps s = (case h of None \<Rightarrow> (s, Inl null_db_error) | Some eng \<Rightarrow> db_all eng sql ps s)"

definition call_get :: "'s engine option \<Rightarrow> jsval \<Rightarrow> jsval list \<Rightarrow> 's \<Rightarrow> 's engine_result" where
  "call_get h sql ps s = (case h of None \<Rightarrow> (s, Inl null_db_error) | Some eng \<Rightarrow> db_get eng sql ps s)"

text \<open>
  The object \<open>prepare(sql)\<close> returns holds the text, the bound parameters and the
  connection as it was when \<open>prepare\<close> was called.
\<close>

record 's statement =
  stmt_sql :: jsval
  stmt_params :: "jsval list"
  stmt_db :: "'s engine option"

text \<open>
  Statement objects are mutable and may be shared: \<open>bind\<close> assigns \<open>this.params\<close> and
  returns \<open>this\<close>. They live in a store, addressed in the order of their creation. A
  reference is an address that \<open>prepare\<close> has returned, so it always finds its object;
  for an address outside the store, which no expression of the source can hold, the
  methods are given the TypeError of a call on \<open>undefined\<close>.
\<close>

type_synonym 's statements = "'s statement list"

definition deref :: "'s statements \<Rightarrow> nat \<Rightarrow> 's statement option" where
  "deref h this = (if this < length h then Some (h ! this) else None)"

definition prepare :: "'s adapter \<Rightarrow> jsval \<Rightarrow> 's statements \<Rightarrow> nat \<times> 's statements" where
  "prepare ad sql h = (length h, h @ [\<lparr>stmt_sql = sql, stmt_params = [], stmt_db = db ad\<rparr>])"

definition bind :: "nat \<Rightarrow> jsval list \<Rightarrow> 's statements \<Rightarrow> nat \<times> 's statements" where
  "bind this args h =
     (this, case deref h this of None \<Rightarrow> h | Some st \<Rightarrow> h[this := st\<lparr>stmt_params := args\<rparr>])"

text \<open>
  The three executing methods work on the engine state and the console, and return the
  value they resolve to (\<open>Inr\<close>) or the error they rethrow after logging it (\<open>Inl\<close>).
  They read the fields of the object; the store is not changed.
\<close>

type_synonym 's io_result = "('s \<times> console) \<times> (jsval + jsval)"

definition run :: "int \<Rightarrow> nat \<Rightarrow> 's statements \<Rightarrow> 's \<times> console \<Rightarrow> 's io_result" where
  "run lvl this h w =
     (case deref h this of
        None \<Rightarrow> (w, Inl (TypeError ''Cannot read properties of undefined''))
      | Some st \<Rightarrow>
          (case call_run (stmt_db st) (stmt_sql st) (stmt_params st) (fst w) of
             (s', Inr r) \<Rightarrow> ((s', snd w), Inr (JObj [(''success'', JBool True)]))
           | (s', Inl error) \<Rightarrow>
               ((s', logMessage lvl LError (SqlRunError error (stmt_sql st) (stmt_params st)) (snd w)),
                Inl error)))"

definition all :: "int \<Rightarrow> nat \<Rightarrow> 's statements \<Rightarrow> 's \<times> console \<Rightarrow> 's io_result" where
  "all lvl this h w =
     (case deref h this of
        None \<Rightarrow> (w, Inl (TypeError ''Cannot read properties of undefined''))
      | Some st \<Rightarrow>
          (case call_all (stmt_db st) (stmt_sql st) (stmt_params st) (fst w) of
             (s', Inr results) \<Rightarrow> ((s', snd w), Inr (JObj [(''results'', results)]))
           | (s', Inl error) \<Rightarrow>
               ((s', logMessage lvl LError (SqlQueryError error (stmt_sql st) (stmt_params st)) (snd w)),
                Inl error)))"

definition first :: "int \<Rightarrow> nat \<Rightarrow> 's statements \<Rightarrow> 's \<times> console \<Rightarrow> 's io_result" where
  "first lvl this h w =
     (case deref h this of
        None \<Rightarrow> (w, Inl (TypeError ''Cannot read properties of undefined''))
      | Some st \<Rightarrow>
          (case call_get (stmt_db st) (stmt_sql st) (stmt_params st) (fst w) of
             (s', Inr row) \<Rightarrow> ((s', snd w), Inr row)
           | (s', Inl error) \<Rightarrow>
               ((s', logMessage lvl LError (SqlQueryError error (stmt_sql st) (stmt_params st)) (snd w)),
                Inl error)))"

definition exec :: "int \<Rightarrow> 's adapter \<Rightarrow> jsval \<Rightarrow> 's \<times> console \<Rightarrow> 's io_result" where
  "exec lvl ad sql w =
     (case call_exec (db ad) sql (fst w) of
        (s', Inr r) \<Rightarrow> ((s', snd w), Inr r)
      | (s', Inl error) \<Rightarrow> ((s', logMessage lvl LError (SqlExecError error sql) (snd w)), Inl error))"

text \<open>
  Spread syntax \<open>...v\<close>: the elements of an array, the characters of a string, the bytes
  of a Buffer; a TypeError on a value that is not iterable.
\<close>

fun spread :: "jsval \<Rightarrow> jsval + jsval list" where
  "spread (JArr xs) = Inr xs"
| "spread (JStr s) = Inr (map (\<lambda>c. JStr [c]) s)"
| "spread (JBuffer bs) = Inr (map (\<lambda>b. JNum (int b)) bs)"
| "spread v = Inl (TypeError ''is not iterable'')"

definition success_result :: "jsval \<Rightarrow> jsval" where
  "success_result result = JObj [(''success'', JBool True), (''result'', result)]"

text \<open>
  One iteration of the loop of \<open>batch\<close> (lines 136-156): the four shapes of a statement,
  in the order the code tests them. Reading a property of a \<open>null\<close> or \<open>undefined\<close>
  statement raises inside the \<open>try\<close>. The statement object of the last branch is
  created, bound and run within the iteration and is referred to from nowhere else: it
  lives in a store of its own.
\<close>

definition batch_statement :: "int \<Rightarrow> 's adapter \<Rightarrow> jsval \<Rightarrow> 's \<times> console \<Rightarrow> 's io_result" where
  "batch_statement lvl ad statement w =
     (if typeof statement = TString then
        (case call_exec (db ad) statement (fst w) of
           (s', Inr result) \<Rightarrow> ((s', snd w), Inr (success_result result))
         | (s', Inl error) \<Rightarrow> ((s', snd w), Inl error))
      else
        (case (get_prop statement ''sql'', get_prop statement ''params'', get_prop statement ''text'') of
           (Inr sql, Inr params, Inr text) \<Rightarrow>
             (if truthy sql \<and> isArray params then
                (case spread params of
                   Inl error \<Rightarrow> (w, Inl error)
                 | Inr ps \<Rightarrow>
                     (case call_run (db ad) sql ps (fst w) of
                        (s', Inr result) \<Rightarrow> ((s', snd w), Inr (success_result result))
                      | (s', Inl error) \<Rightarrow> ((s', snd w), Inl error)))
              else if truthy sql \<and> typeof params = TUndefined then
                (case call_run (db ad) sql [] (fst w) of
                   (s', Inr result) \<Rightarrow> ((s', snd w), Inr (success_result result))
                 | (s', Inl error) \<Rightarrow> ((s', snd w), Inl error))
              else
                (case prepare ad (if truthy text then text else sql) [] of
                   (stmt, h) \<Rightarrow>
                     if truthy params then
                       (case spread params of
                          Inl error \<Rightarrow> (w, Inl error)
                        | Inr ps \<Rightarrow> (case bind stmt ps h of (this, h') \<Rightarrow> run lvl this h' w))
                     else run lvl stmt h w))
         | (Inl error, _, _) \<Rightarrow> (w, Inl error)
         | (_, Inl error, _) \<Rightarrow> (w, Inl error)
         | (_, _, Inl error) \<Rightarrow> (w, Inl error)))"

text \<open>The \<open>for\<close> loop: results are pushed in order; the first error leaves the loop.\<close>

fun batch_loop ::
  "int \<Rightarrow> 's adapter \<Rightarrow> jsval list \<Rightarrow> jsval list \<Rightarrow> 's \<times> console
     \<Rightarrow> ('s \<times> console) \<times> (jsval + jsval list)" where
  "batch_loop lvl ad [] results w = (w, Inr results)"
| "batch_loop lvl ad (statement # rest) results w =
     (case batch_statement lvl ad statement w of
        (w', Inl error) \<Rightarrow> (w', Inl error)
      | (w', Inr result) \<Rightarrow> batch_loop lvl ad rest (results @ [result]) w')"

text \<open>The body of the \<open>try\<close> of \<open>batch\<close>: begin, the loop, commit.\<close>

definition batch_try ::
  "int \<Rightarrow> 's adapter \<Rightarrow> jsval list \<Rightarrow> 's \<times> console \<Rightarrow> ('s \<times> console) \<times> (jsval + jsval list)" where
  "batch_try lvl ad statements w =
     (case call_exec (db ad) (JStr ''BEGIN TRANSACTION'') (fst w) of
        (s1, Inl error) \<Rightarrow> ((s1, snd w), Inl error)
      | (s1, Inr b) \<Rightarrow>
          (case batch_loop lvl ad statements [] (s1, snd w) of
             (w2, Inl error) \<Rightarrow> (w2, Inl error)
           | (w2, Inr results) \<Rightarrow>
               (case call_exec (db ad) (JStr ''COMMIT'') (fst w2) of
                  (s3, Inl error) \<Rightarrow> ((s3, snd w2), Inl error)
                | (s3, Inr c) \<Rightarrow> ((s3, snd w2), Inr results))))"

text \<open>
  \<open>batch\<close>: the \<open>catch\<close> logs the error, tries to roll back, logs a failure of the
  rollback, and rethrows the error it caught.
\<close>

definition batch ::
  "int \<Rightarrow> 's adapter \<Rightarrow> jsval list \<Rightarrow> 's \<times> console \<Rightarrow> ('s \<times> console) \<times> (jsval + jsval list)" where
  "batch lvl ad statements w =
     (case batch_try lvl ad statements
             (fst w, logMessage lvl LInfo (BatchStart (length statements)) (snd w)) of
        (w', Inr results) \<Rightarrow> (w', Inr results)
      | (w', Inl error) \<Rightarrow>
          (let out = logMessage lvl LError (BatchRollback error) (snd w') in
           case call_exec (db ad) (JStr ''ROLLBACK'') (fst w') of
             (s'', Inr r) \<Rightarrow> ((s'', out), Inl error)
           | (s'', Inl rollbackError) \<Rightarrow>
               ((s'', logMessage lvl LError (RollbackFailed rollbackError) out), Inl error)))"


section \<open>A transactional engine\<close>

text \<open>
  The engine's transaction discipline, as far as the adapter relies on it. Outside a
  transaction every statement takes effect at once. \<open>BEGIN\<close> opens a transaction on the
  connection and fails inside one. Inside a transaction statements work on a pending
  copy; \<open>COMMIT\<close> makes the copy the database and \<open>ROLLBACK\<close> drops it. Both fail when
  no transaction is open, and either may fail inside one (a deferred constraint, a busy
  or failing disk), which leaves the transaction open. \<open>exec\<close> runs the statements of a
  script one after the other and stops at the first that fails; \<open>run\<close>, \<open>all\<close> and
  \<open>get\<close> execute one statement. There is one connection, and the state below is the
  state of that connection: whoever calls it next finds the transaction that the last
  caller left open.

  What the texts mean is left open: \<open>sq_kind\<close> says whether the engine reads a statement
  as transaction control, \<open>sq_script\<close> splits a script into its statements, \<open>sq_apply\<close>
  gives, for the method called, the effect of any other statement on the data and its
  result or error, and \<open>sq_commit_error\<close> and \<open>sq_rollback_error\<close> say on which pending
  data a commit or a rollback fails, and with what.
\<close>

datatype sql_kind = TxBegin | TxCommit | TxRollback | Data

datatype db_method = MExec | MRun | MAll | MGet

record 'd sqlite =
  sq_kind :: "jsval \<Rightarrow> sql_kind"
  sq_script :: "jsval \<Rightarrow> jsval list"
  sq_apply :: "db_method \<Rightarrow> jsval \<Rightarrow> jsval list \<Rightarrow> 'd \<Rightarrow> 'd \<times> (jsval + jsval)"
  sq_commit_error :: "'d \<Rightarrow> jsval option"
  sq_rollback_error :: "'d \<Rightarrow> jsval option"

record 'd txdb =
  committed :: 'd
  pending :: "'d option"

text \<open>One statement, executed through the method \<open>m\<close>.\<close>

definition txn_call ::
  "'d sqlite \<Rightarrow> db_method \<Rightarrow> jsval \<Rightarrow> jsval list \<Rightarrow> 'd txdb \<Rightarrow> 'd txdb engine_result" where
  "txn_call E m sql ps t =
     (case sq_kind E sql of
        TxBegin \<Rightarrow>
          (case pending t of
             None \<Rightarrow> (t\<lparr>pending := Some (committed t)\<rparr>, Inr JUndefined)
           | Some d \<Rightarrow> (t, Inl (JStr ''cannot start a transaction within a transaction'')))
      | TxCommit \<Rightarrow>
          (case pending t of
             Some d \<Rightarrow>
               (case sq_commit_error E d of
                  None \<Rightarrow> (\<lparr>committed = d, pending = None\<rparr>, Inr JUndefined)
                | Some e \<Rightarrow> (t, Inl e))
           | None \<Rightarrow> (t, Inl (JStr ''cannot commit - no transaction is active'')))
      | TxRollback \<Rightarrow>
          (case pending t of
             Some d \<Rightarrow>
               (case sq_rollback_error E d of
                  None \<Rightarrow> (t\<lparr>pending := None\<rparr>, Inr JUndefined)
                | Some e \<Rightarrow> (t, Inl e))
           | None \<Rightarrow> (t, Inl (JStr ''cannot rollback - no transaction is active'')))
      | Data \<Rightarrow>
          (case pending t of
             Some d \<Rightarrow> (t\<lparr>pending := Some (fst (sq_apply E m sql ps d))\<rparr>, snd (sq_apply E m sql ps d))
           | None \<Rightarrow> (t\<lparr>committed := fst (sq_apply E m sql ps (committed t))\<rparr>,
                      snd (sq_apply E m sql ps (committed t)))))"

text \<open>The statements of a script, in order, up to the first failure.\<close>

fun txn_script :: "'d sqlite \<Rightarrow> jsval list \<Rightarrow> 'd txdb \<Rightarrow> 'd txdb engine_result" where
  "txn_script E [] t = (t, Inr JUndefined)"
| "txn_script E (x # xs) t =
     (case txn_call E MExec x [] t of
        (t', Inl e) \<Rightarrow> (t', Inl e)
      | (t', Inr r) \<Rightarrow> txn_script E xs t')"

definition txn_engine :: "'d sqlite \<Rightarrow> 'd txdb engine" where
  "txn_engine E =
     \<lparr>db_exec = (\<lambda>sql. txn_script E (sq_script E sql)),
      db_run = txn_call E MRun,
      db_all = txn_call E MAll,
      db_get = txn_call E MGet\<rparr>"

text \<open>The connection is inside a transaction opened on the committed data \<open>c\<close>.\<close>

definition in_txn :: "'d txdb \<Rightarrow> 'd \<Rightarrow> bool" where
  "in_txn t c = (committed t = c \<and> pending t \<noteq> None)"

text \<open>
  The engine reads each of the three texts that \<open>batch\<close> sends on its own account as one
  statement of its kind.
\<close>

definition reads_control :: "'d sqlite \<Rightarrow> bool" where
  "reads_control E =
     (sq_script E (JStr ''BEGIN TRANSACTION'') = [JStr ''BEGIN TRANSACTION'']
      \<and> sq_kind E (JStr ''BEGIN TRANSACTION'') = TxBegin
      \<and> sq_script E (JStr ''COMMIT'') = [JStr ''COMMIT'']
      \<and> sq_kind E (JStr ''COMMIT'') = TxCommit
      \<and> sq_script E (JStr ''ROLLBACK'') = [JStr ''ROLLBACK'']
      \<and> sq_kind E (JStr ''ROLLBACK'') = TxRollback)"

text \<open>
  The statements the engine executes for one statement of a batch: those of the script
  when the statement is a string, else the \<open>sql\<close> or \<open>text\<close> property, as the branch
  taken selects it. A batch is free of transaction control when the engine reads none
  of them as such.
\<close>

definition engine_texts :: "'d sqlite \<Rightarrow> jsval \<Rightarrow> jsval list" where
  "engine_texts E statement =
     (if typeof statement = TString then sq_script E statement
      else
        (case (get_prop statement ''sql'', get_prop statement ''params'', get_prop statement ''text'') of
           (Inr sql, Inr params, Inr text) \<Rightarrow>
             [if truthy sql \<and> (isArray params \<or> typeof params = TUndefined) then sql
              else if truthy text then text else sql]
         | _ \<Rightarrow> []))"

definition control_free :: "'d sqlite \<Rightarrow> jsval list \<Rightarrow> bool" where
  "control_free E statements =
     list_all (\<lambda>statement. list_all (\<lambda>x. sq_kind E x = Data) (engine_texts E statement)) statements"

text \<open>
  A small instance. The data is the list of inserted values; \<open>INSERT\<close> appends one
  value, \<open>SELECT\<close> returns the list (\<open>get\<close>: its first element or \<open>undefined\<close>), any
  other text is rejected. The three control statements are recognised by their exact
  text, a script is split at its semicolons, and a commit fails while the data holds a
  \<open>null\<close>, in the way of a deferred constraint.
\<close>

definition toy_kind :: "jsval \<Rightarrow> sql_kind" where
  "toy_kind sql =
     (if sql = JStr ''BEGIN TRANSACTION'' then TxBegin
      else if sql = JStr ''COMMIT'' then TxCommit
      else if sql = JStr ''ROLLBACK'' then TxRollback
      else Data)"

definition toy_script :: "jsval \<Rightarrow> jsval list" where
  "toy_script sql =
     (case sql of
        JStr s \<Rightarrow> map JStr (filter (\<lambda>x. x \<noteq> []) (split_on (CHR '';'') s))
      | _ \<Rightarrow> [sql])"

definition toy_apply ::
  "db_method \<Rightarrow> jsval \<Rightarrow> jsval list \<Rightarrow> jsval list \<Rightarrow> jsval list \<times> (jsval + jsval)" where
  "toy_apply m sql ps d =
     (if sql = JStr ''INSERT INTO t VALUES (?)'' \<and> length ps = 1 then
        (d @ ps, Inr (JObj [(''changes'', JNum 1)]))
      else if sql = JStr ''INSERT INTO t VALUES (1)'' then
        (d @ [JNum 1], Inr (JObj [(''changes'', JNum 1)]))
      else if sql = JStr ''SELECT * FROM t'' then
        (d, Inr (if m = MGet then (case d of [] \<Rightarrow> JUndefined | row # rows \<Rightarrow> row) else JArr d))
      else (d, Inl (JStr ''SQLITE_ERROR'')))"

definition toy_sqlite :: "jsval list sqlite" where
  "toy_sqlite =
     \<lparr>sq_kind = toy_kind, sq_script = toy_script, sq_apply = toy_apply,
      sq_commit_error = (\<lambda>d. if JNull \<in> set d then Some (JStr ''SQLITE_CONSTRAINT'') else None),
      sq_rollback_error = (\<lambda>d. None)\<rparr>"

definition toy_adapter :: "jsval list txdb adapter" where
  "toy_adapter = \<lparr>dbPath = ''data/cloudpaste.db'', db = Some (txn_engine toy_sqlite)\<rparr>"

definition empty_db :: "jsval list txdb" where
  "empty_db = \<lparr>committed = [], pending = None\<rparr>"

text \<open>
  The batch of the specification's scenario: an insert with one parameter, then an
  insert into a table that does not exist.
\<close>

definition scenario_batch :: "jsval list" where
  "scenario_batch =
     [JObj [(''sql'', JStr ''INSERT INTO t VALUES (?)''), (''params'', JArr [JNum 1])],
      JObj [(''sql'', JStr ''INSERT INTO nonexistent_table VALUES (?)''), (''params'', JArr [])]]"

text \<open>A batch whose second statement ends the transaction that \<open>batch\<close> opened.\<close>

definition committing_batch :: "jsval list" where
  "committing_batch =
     [JStr ''INSERT INTO t VALUES (1)'', JStr ''COMMIT'',
      JStr ''INSERT INTO nonexistent_table VALUES (2)'']"

text \<open>
  A batch with one statement of each of the four shapes that \<open>batch\<close> tells apart, and a
  batch whose insert succeeds and whose commit the engine refuses.
\<close>

definition four_shapes :: "jsval list" where
  "four_shapes =
     [JStr ''INSERT INTO t VALUES (1)'',
      JObj [(''sql'', JStr ''INSERT INTO t VALUES (?)''), (''params'', JArr [JNum 2])],
      JObj [(''sql'', JStr ''INSERT INTO t VALUES (1)'')],
      JObj [(''text'', JStr ''INSERT INTO t VALUES (?)''), (''params'', JStr ''z'')]]"

definition deferred_batch :: "jsval list" where
  "deferred_batch =
     [JObj [(''sql'', JStr ''INSERT INTO t VALUES (?)''), (''params'', JArr [JNull])]]"


section \<open>Database initialisation middleware\<close>

text \<open>
  \<open>init()\<close> of the adapter (lines 69-79). \<open>open({filename, driver})\<close> is the library's:
  from the path and the engine state it gives the connection or the error. The
  connection is stored before the pragma is executed, so a failing pragma leaves it
  set.
\<close>

definition init ::
  "int \<Rightarrow> (string \<Rightarrow> 's \<Rightarrow> 's \<times> (jsval + 's engine)) \<Rightarrow> 's adapter \<Rightarrow> 's \<times> console
     \<Rightarrow> ('s adapter \<times> 's \<times> console) \<times> jsval option" where
  "init lvl open_db ad w =
     (let out = logMessage lvl LInfo InitSqlite (snd w) in
      case open_db (dbPath ad) (fst w) of
        (s1, Inl error) \<Rightarrow> ((ad, s1, out), Some error)
      | (s1, Inr connection) \<Rightarrow>
          (case db_exec connection (JStr ''PRAGMA foreign_keys = ON;'') s1 of
             (s2, Inl error) \<Rightarrow> ((ad\<lparr>db := Some connection\<rparr>, s2, out), Some error)
           | (s2, Inr r) \<Rightarrow> ((ad\<lparr>db := Some connection\<rparr>, s2, out), None)))"

text \<open>
  The module-level state: the flag \<open>isDbInitialized\<close>, \<open>sqliteAdapter\<close>, the state of
  the engine and the console.
\<close>

record 's server =
  isDbInitialized :: bool
  sqliteAdapter :: "'s adapter"
  db_state :: 's
  console :: console

text \<open>
  The body of the inner \<open>try\<close> (lines 502-503). \<open>checkAndInitDatabase\<close> is imported from
  a module that is not part of the sources at hand: it is a parameter that, from the
  adapter and the engine state, gives the new engine state and the error it raised, if
  any. It runs only if \<open>init()\<close> returned.
\<close>

definition initDatabase ::
  "int \<Rightarrow> (string \<Rightarrow> 's \<Rightarrow> 's \<times> (jsval + 's engine)) \<Rightarrow> ('s adapter \<Rightarrow> 's \<Rightarrow> 's \<times> jsval option)
     \<Rightarrow> 's adapter \<Rightarrow> 's \<times> console \<Rightarrow> ('s adapter \<times> 's \<times> console) \<times> jsval option" where
  "initDatabase lvl open_db checkAndInitDatabase ad w =
     (case init lvl open_db ad w of
        (r, Some error) \<Rightarrow> (r, Some error)
      | ((ad1, s1, out1), None) \<Rightarrow>
          (case checkAndInitDatabase ad1 s1 of (s2, result) \<Rightarrow> ((ad1, s2, out1), result)))"

text \<open>\<open>process.env.ENCRYPTION_SECRET || "default-encryption-key"\<close>.\<close>

definition encryption_secret :: "string option \<Rightarrow> string" where
  "encryption_secret v =
     (case v of
        None \<Rightarrow> ''default-encryption-key''
      | Some s \<Rightarrow> if s = [] then ''default-encryption-key'' else s)"

text \<open>
  The middleware of lines 496-520. The flag is set before the initialisation is
  awaited. Nothing in the outer \<open>try\<close> can raise once the inner \<open>try\<close> has caught the
  initialisation error, so the request always goes to \<open>next()\<close>, with \<open>req.env\<close> set
  (its \<open>DB\<close> field refers to \<open>sqliteAdapter\<close> of the server state).
\<close>

definition dbInitMiddleware ::
  "int \<Rightarrow> (string \<Rightarrow> 's \<Rightarrow> 's \<times> (jsval + 's engine)) \<Rightarrow> ('s adapter \<Rightarrow> 's \<Rightarrow> 's \<times> jsval option)
     \<Rightarrow> string option \<Rightarrow> 's server \<Rightarrow> express_req \<Rightarrow> 's server \<times> mw_outcome" where
  "dbInitMiddleware lvl open_db checkAndInitDatabase secret srv req =
     (let srv' =
        (if \<not> isDbInitialized srv then
           (case initDatabase lvl open_db checkAndInitDatabase (sqliteAdapter srv)
                   (db_state srv, logMessage lvl LInfo FirstRequestCheck (console srv)) of
              ((ad, s, out), result) \<Rightarrow>
                \<lparr>isDbInitialized = True, sqliteAdapter = ad, db_state = s,
                 console = (case result of
                              Some error \<Rightarrow> logMessage lvl LError (DbInitError error) out
                            | None \<Rightarrow> out)\<rparr>)
         else srv)
      in (srv', Next (req\<lparr>req_env := Some \<lparr>ENCRYPTION_SECRET = encryption_secret secret\<rparr>\<rparr>)))"

text \<open>
  For examples: a connection on which every call succeeds, and an \<open>open\<close> that fails on
  its first attempt and succeeds on any later one; the engine state counts the
  attempts made.
\<close>

definition idle_engine :: "nat engine" where
  "idle_engine = \<lparr>db_exec = (\<lambda>sql s. (s, Inr JUndefined)),
     db_run = (\<lambda>sql ps s. (s, Inr JUndefined)),
     db_all = (\<lambda>sql ps s. (s, Inr (JArr []))),
     db_get = (\<lambda>sql ps s. (s, Inr JUndefined))\<rparr>"

definition flaky_open :: "string \<Rightarrow> nat \<Rightarrow> nat \<times> (jsval + nat engine)" where
  "flaky_open path n =
     (Suc n, if n = 0 then Inl (JStr ''SQLITE_CANTOPEN'') else Inr idle_engine)"

definition schema_ok :: "nat adapter \<Rightarrow> nat \<Rightarrow> nat \<times> jsval option" where
  "schema_ok ad n = (n, None)"

definition fresh_server :: "nat server" where
  "fresh_server = \<lparr>isDbInitialized = False,
     sqliteAdapter = \<lparr>dbPath = ''data/cloudpaste.db'', db = None\<rparr>,
     db_state = 0, console = []\<rparr>"

definition failed_server :: "nat server" where
  "failed_server = \<lparr>isDbInitialized = True,
     sqliteAdapter = \<lparr>dbPath = ''data/cloudpaste.db'', db = None\<rparr>,
     db_state = 1,
     console = [(LInfo, FirstRequestCheck), (LInfo, InitSqlite),
                (LError, DbInitError (JStr ''SQLITE_CANTOPEN''))]\<rparr>"

definition plain_get :: express_req where
  "plain_get = \<lparr>req_method = ''GET'', req_path = ''/api/health'', req_originalUrl = ''/api/health'',
     req_headers = [], req_body = JUndefined, req_rawBody = JUndefined,
     req_tempFilePath = JUndefined, req_encrypted = False, req_env = None\<rparr>"

definition with_env :: "express_req \<Rightarrow> express_req" where
  "with_env req = req\<lparr>req_env := Some \<lparr>ENCRYPTION_SECRET = ''default-encryption-key''\<rparr>\<rparr>"


section \<open>createAdaptedRequest\<close>

text \<open>
  The request handed to the native application: the \<open>URL\<close> the function builds, as its
  text, and the \<open>requestInit\<close> it fills (\<open>body\<close> and \<open>duplex\<close> only when a body was
  chosen). A body is a read stream on a file or a value (a string or a Buffer).
\<close>

datatype request_body = ReadStream string | Value jsval

record canonical_req =
  cr_url :: string
  cr_method :: string
  cr_headers :: "(string \<times> string) list"
  cr_body :: "request_body option"
  cr_duplex :: "string option"

text \<open>
  What the function takes from the runtime. \<open>new URL(input, base)\<close> gives the text of
  the URL or raises the TypeError of an invalid URL. \<open>new Request(url, init)\<close> raises on
  an \<open>init\<close> it does not accept (a forbidden method, an invalid header) and otherwise
  yields the request with the fields of \<open>init\<close>: \<open>Request_rejects\<close> gives the error, if
  any. \<open>JSON.stringify\<close> is applied to parsed bodies only, which have no cycles and are
  no functions: it returns a string. \<open>URLSearchParams_toString\<close> is the string form of
  a \<open>URLSearchParams\<close> built from key/value pairs, and \<open>fs_existsSync\<close> is
  \<open>fs.existsSync\<close>.
\<close>

record runtime =
  new_URL :: "string \<Rightarrow> string \<Rightarrow> jsval + string"
  Request_rejects :: "canonical_req \<Rightarrow> jsval option"
  JSON_stringify :: "jsval \<Rightarrow> string"
  URLSearchParams_toString :: "(string \<times> jsval) list \<Rightarrow> string"
  fs_existsSync :: "string \<Rightarrow> bool"

text \<open>\<open>h || d\<close> for a header value: absent and empty are falsy.\<close>

definition header_or :: "string option \<Rightarrow> string \<Rightarrow> string" where
  "header_or h d = (case h of None \<Rightarrow> d | Some v \<Rightarrow> if v = [] then d else v)"

text \<open>\<open>!body\<close> for the local variable \<open>body\<close>; \<open>None\<close> is \<open>undefined\<close>.\<close>

fun body_falsy :: "request_body option \<Rightarrow> bool" where
  "body_falsy None = True"
| "body_falsy (Some (ReadStream p)) = False"
| "body_falsy (Some (Value v)) = (\<not> truthy v)"

text \<open>The keys \<open>for (const key in v)\<close> visits, with \<open>v[key]\<close>.\<close>

fun for_in :: "jsval \<Rightarrow> (string \<times> jsval) list" where
  "for_in (JObj kvs) = kvs"
| "for_in (JArr xs) = zip (map (toString_radix 10) [0..<length xs]) xs"
| "for_in (JBuffer bs) = zip (map (toString_radix 10) [0..<length bs]) (map (\<lambda>b. JNum (int b)) bs)"
| "for_in v = []"

definition body_methods :: "string list" where
  "body_methods = [''POST'', ''PUT'', ''PATCH'', ''PROPFIND'', ''PROPPATCH'', ''MKCOL'', ''COPY'',
     ''MOVE'', ''DELETE'']"

text \<open>
  Lines 566-576: the body of a \<open>multipart/form-data\<close> request is a stream on the spooled
  file when \<open>tempFilePath\<close> is set and the file exists, else \<open>rawBody\<close> when that is set.
\<close>

definition multipart_body :: "runtime \<Rightarrow> express_req \<Rightarrow> request_body option" where
  "multipart_body rt req =
     (case req_tempFilePath req of
        JStr p \<Rightarrow>
          (if p \<noteq> [] \<and> fs_existsSync rt p then Some (ReadStream p)
           else if truthy (req_rawBody req) then Some (Value (req_rawBody req))
           else None)
      | _ \<Rightarrow> if truthy (req_rawBody req) then Some (Value (req_rawBody req)) else None)"

text \<open>Lines 605-643: the body chosen from the content type and the parsed body.\<close>

definition content_directed_body :: "runtime \<Rightarrow> string \<Rightarrow> jsval \<Rightarrow> request_body option" where
  "content_directed_body rt contentType b =
     (if (str_includes contentType ''application/json'' \<or> str_includes contentType ''json'')
          \<and> truthy b \<and> typeof b = TObject then
        Some (Value (JStr (JSON_stringify rt b)))
      else if (str_includes contentType ''application/xml'' \<or> str_includes contentType ''text/xml''
                 \<or> str_includes contentType ''application/octet-stream'') \<and> isBuffer b then
        Some (Value b)
      else if str_includes contentType ''application/x-www-form-urlencoded''
                \<and> truthy b \<and> typeof b = TObject then
        Some (Value (JStr (URLSearchParams_toString rt (for_in b))))
      else if truthy b then
        (if isBuffer b then Some (Value b)
         else if typeof b = TString then Some (Value b)
         else Some (Value (JStr (JSON_stringify rt b))))
      else None)"

text \<open>
  The local variable \<open>body\<close> at line 645. The default content type given to a
  \<open>MKCOL\<close> without one (line 583) is only logged afterwards and is not modelled; the
  debug and warning messages of the function are left out, they do not touch the
  request.
\<close>

definition adapted_body :: "runtime \<Rightarrow> express_req \<Rightarrow> request_body option" where
  "adapted_body rt req =
     (if req_method req \<in> set body_methods then
        (let contentType = header_or (header req ''content-type'') [];
             body = (if str_includes contentType ''multipart/form-data''
                     then multipart_body rt req else None)
         in if req_method req = ''MKCOL'' then
              (if truthy (req_body req) then Some (Value (JStr [])) else body)
            else if body_falsy body then
              (case content_directed_body rt contentType (req_body req) of
                 Some b \<Rightarrow> Some b
               | None \<Rightarrow> body)
            else body)
      else None)"

text \<open>
  The function: the URL is built first, the body chosen next, the request constructed
  last; an error of either constructor leaves the function.
\<close>

definition request_init :: "runtime \<Rightarrow> express_req \<Rightarrow> string \<Rightarrow> canonical_req" where
  "request_init rt expressReq url =
     (let body = adapted_body rt expressReq
      in \<lparr>cr_url = url,
          cr_method = req_method expressReq,
          cr_headers = req_headers expressReq,
          cr_body = body,
          cr_duplex = (if body \<noteq> None then Some ''half'' else None)\<rparr>)"

definition url_base :: "express_req \<Rightarrow> string" where
  "url_base expressReq =
     (let protocol = header_or (header expressReq ''x-forwarded-proto'')
                       (if req_encrypted expressReq then ''https'' else ''http'')
      in protocol @ ''://'' @ header_or (header expressReq ''host'') ''localhost'')"

definition createAdaptedRequest :: "runtime \<Rightarrow> express_req \<Rightarrow> jsval + canonical_req" where
  "createAdaptedRequest rt expressReq =
     (case new_URL rt (req_originalUrl expressReq) (url_base expressReq) of
        Inl error \<Rightarrow> Inl error
      | Inr url \<Rightarrow>
          (case Request_rejects rt (request_init rt expressReq url) of
             Some error \<Rightarrow> Inl error
           | None \<Rightarrow> Inr (request_init rt expressReq url)))"

text \<open>
  The body parsers that run before the wildcard route (lines 373-465) are the
  framework's \<open>express.raw\<close>, \<open>express.urlencoded\<close> and \<open>express.json\<close>. In Express 4
  each of them starts with \<open>req.body = req.body || {}\<close> and replaces the body only by
  what it has parsed, a Buffer, an object or an array: the requests that reach
  \<open>createAdaptedRequest\<close> have a truthy \<open>body\<close>, the empty object when none was sent.

  A runtime for examples: URLs are the base followed by the target, every request is
  accepted, nothing spooled exists, and the only value serialised is the empty object.
\<close>

definition plain_runtime :: runtime where
  "plain_runtime =
     \<lparr>new_URL = (\<lambda>input base. Inr (base @ input)),
      Request_rejects = (\<lambda>init. None),
      JSON_stringify = (\<lambda>v. ''{}''),
      URLSearchParams_toString = (\<lambda>kvs. []),
      fs_existsSync = (\<lambda>p. False)\<rparr>"


definition dav_request :: "string \<Rightarrow> jsval \<Rightarrow> express_req" where
  "dav_request m b = \<lparr>req_method = m, req_path = ''/dav/new-folder'',
     req_originalUrl = ''/dav/new-folder'', req_headers = [(''host'', ''example.org'')],
     req_body = b, req_rawBody = JUndefined, req_tempFilePath = JUndefined,
     req_encrypted = False, req_env = None\<rparr>"


section \<open>Error responses\<close>

text \<open>
  The replacement of line 202: every match of \<open>/key|password|token|secret|auth/gi\<close>
  becomes asterisks of the same length. At each position the alternatives are tried in
  order, letter case ignored; after a match the scan goes on behind it.
\<close>

definition lower_char :: "char \<Rightarrow> char" where
  "lower_char c =
     (let n = (of_char c :: nat) in if 65 \<le> n \<and> n \<le> 90 then char_of (n + 32) else c)"

definition sensitive_words :: "string list" where
  "sensitive_words = [''key'', ''password'', ''token'', ''secret'', ''auth'']"

definition matches_at :: "string \<Rightarrow> string \<Rightarrow> bool" where
  "matches_at w s = (length w \<le> length s \<and> map lower_char (take (length w) s) = w)"

fun first_match :: "string list \<Rightarrow> string \<Rightarrow> nat option" where
  "first_match [] s = None"
| "first_match (w # ws) s = (if matches_at w s then Some (length w) else first_match ws s)"

fun mask_sensitive :: "string \<Rightarrow> string" where
  "mask_sensitive [] = []"
| "mask_sensitive (c # cs) =
     (case first_match sensitive_words (c # cs) of
        Some n \<Rightarrow> replicate n (CHR ''*'') @ mask_sensitive (drop (n - 1) cs)
      | None \<Rightarrow> c # mask_sensitive cs)"

text \<open>\<open>s.split("\n").slice(0, 3).join("\n")\<close>: the first three lines of a stack trace.\<close>

definition stack_head :: "string \<Rightarrow> string" where
  "stack_head s = join_with [CHR 0x0A] (take 3 (split_on (CHR 0x0A) s))"

text \<open>
  The default of the parameter \<open>defaultMessage\<close>, as the bytes of its UTF-8 encoding.
\<close>

definition defaultMessage :: string where
  "defaultMessage = [CHR 0xE6, CHR 0x9C, CHR 0x8D, CHR 0xE5, CHR 0x8A, CHR 0xA1, CHR 0xE5,
     CHR 0x99, CHR 0xA8, CHR 0xE5, CHR 0x86, CHR 0x85, CHR 0xE9, CHR 0x83, CHR 0xA8, CHR 0xE9,
     CHR 0x94, CHR 0x99, CHR 0xE8, CHR 0xAF, CHR 0xAF]"

text \<open>
  \<open>Date.now().toString(36) + Math.random().toString(36).substr(2, 5)\<close>, from the clock
  reading and the base-36 text of the random number.
\<close>

definition make_errorId :: "nat \<Rightarrow> string \<Rightarrow> string" where
  "make_errorId now random36 = toString_radix 36 now @ take 5 (drop 2 random36)"

text \<open>
  \<open>error.message.replace(...)\<close> and \<open>error.stack.split(...)\<close> are method calls: on a
  truthy value that is not a string they raise a TypeError.
\<close>

definition sanitized_message :: "jsval \<Rightarrow> string \<Rightarrow> jsval + string" where
  "sanitized_message m dflt =
     (if truthy m then
        (case m of
           JStr s \<Rightarrow> Inr (mask_sensitive s)
         | _ \<Rightarrow> Inl (TypeError ''error.message.replace is not a function''))
      else Inr dflt)"

definition logged_stack :: "jsval \<Rightarrow> jsval + jsval" where
  "logged_stack st =
     (if truthy st then
        (case st of
           JStr s \<Rightarrow> Inr (JStr (stack_head s))
         | _ \<Rightarrow> Inl (TypeError ''error.stack.split is not a function''))
      else Inr JNull)"

text \<open>
  \<open>createErrorResponse(error, status, defaultMessage)\<close>: the console after the call and
  the object returned, or the TypeError raised on the way.
\<close>

definition createErrorResponse ::
  "int \<Rightarrow> nat \<Rightarrow> string \<Rightarrow> jsval \<Rightarrow> int \<Rightarrow> string \<Rightarrow> console \<Rightarrow> jsval + (console \<times> jsval)" where
  "createErrorResponse lvl now random36 error status dflt out =
     (let errorId = make_errorId now random36 in
      case get_prop error ''message'' of
        Inl te \<Rightarrow> Inl te
      | Inr m \<Rightarrow>
          (case sanitized_message m dflt of
             Inl te \<Rightarrow> Inl te
           | Inr sanitizedErrorMessage \<Rightarrow>
               (case get_prop error ''stack'' of
                  Inl te \<Rightarrow> Inl te
                | Inr st \<Rightarrow>
                    (case logged_stack st of
                       Inl te \<Rightarrow> Inl te
                     | Inr stack \<Rightarrow>
                         Inr (logMessage lvl LError
                                (ServerError errorId status sanitizedErrorMessage stack) out,
                              JObj [(''code'', JNum status),
                                    (''message'', JStr dflt),
                                    (''errorId'', JStr errorId),
                                    (''success'', JBool False),
                                    (''data'', JNull)])))))"

text \<open>
  The status of line 535:
  \<open>error.status && typeof error.status === "number" ? error.status : ApiStatus.INTERNAL_ERROR\<close>.
  \<open>ApiStatus.INTERNAL_ERROR\<close> comes from a module that is not part of the sources at
  hand and is a parameter.
\<close>

definition select_status :: "int \<Rightarrow> jsval \<Rightarrow> int" where
  "select_status INTERNAL_ERROR s =
     (if truthy s \<and> typeof s = TNumber then (case s of JNum n \<Rightarrow> n | _ \<Rightarrow> INTERNAL_ERROR)
      else INTERNAL_ERROR)"

text \<open>
  The \<open>catch\<close> block of the wildcard route (lines 533-537),
  \<open>res.status(status).json(createErrorResponse(error, status))\<close>: the console after
  it, and the response sent (\<open>Inr\<close>) or the error raised inside the block, which nothing
  catches (\<open>Inl\<close>): by the read of \<open>error.status\<close>, by \<open>createErrorResponse\<close>, or by the
  framework when it writes the head.
\<close>

definition dispatch_catch ::
  "int \<Rightarrow> int \<Rightarrow> nat \<Rightarrow> string \<Rightarrow> (express_req \<Rightarrow> express_res \<Rightarrow> bool) \<Rightarrow> express_req \<Rightarrow> jsval
     \<Rightarrow> console \<times> express_res \<Rightarrow> console \<times> (jsval + express_res)" where
  "dispatch_catch lvl INTERNAL_ERROR now random36 fresh req error w =
     (case get_prop error ''status'' of
        Inl te \<Rightarrow> (fst w, Inl te)
      | Inr s \<Rightarrow>
          (let status = select_status INTERNAL_ERROR s in
           case createErrorResponse lvl now random36 error status defaultMessage (fst w) of
             Inl te \<Rightarrow> (fst w, Inl te)
           | Inr (out, body) \<Rightarrow>
               (out, res_json fresh req body ((snd w)\<lparr>res_statusCode := status\<rparr>))))"

text \<open>
  The wildcard route. Its \<open>try\<close> body (building the request, \<open>app.fetch\<close>, writing the
  response) is given as a function that returns the response written or the error
  raised together with the response as it stood then.
\<close>

definition wildcardRoute ::
  "int \<Rightarrow> int \<Rightarrow> nat \<Rightarrow> string \<Rightarrow> (express_req \<Rightarrow> express_res \<Rightarrow> bool)
     \<Rightarrow> (express_req \<Rightarrow> express_res \<Rightarrow> (jsval \<times> express_res) + express_res)
     \<Rightarrow> express_req \<Rightarrow> console \<times> express_res \<Rightarrow> console \<times> (jsval + express_res)" where
  "wildcardRoute lvl INTERNAL_ERROR now random36 fresh dispatch req w =
     (case dispatch req (snd w) of
        Inr res \<Rightarrow> (fst w, Inr res)
      | Inl (error, res) \<Rightarrow>
          dispatch_catch lvl INTERNAL_ERROR now random36 fresh req error (fst w, res))"

text \<open>For examples: no client copy is fresh.\<close>

definition never_fresh :: "express_req \<Rightarrow> express_res \<Rightarrow> bool" where
  "never_fresh req res = False"


section \<open>Preflight requests under the protocol namespace\<close>

text \<open>
  \<open>getWebDAVConfig()\<close> is imported from a module that is not part of the sources at
  hand; the fields the server reads are parameters. The two CORS fields are taken as
  strings, a list of header names joined by commas; the empty string stands for a
  field that is not set.
\<close>

record webdav_config =
  SUPPORTED_METHODS :: "string list"
  RESPONSE_HEADERS_DAV :: string
  RESPONSE_HEADERS_MS_Author_Via :: string
  CORS_ALLOW_ORIGIN :: string
  CORS_ALLOW_HEADERS :: string

text \<open>
  What a middleware of this group does: it passes the request and the response on,
  sends the response, or raises.
\<close>

datatype outcome = Continue express_req express_res | Answered express_res | Raised jsval

definition end_response :: "express_res \<Rightarrow> outcome" where
  "end_response res = (case res_end res of Inl error \<Rightarrow> Raised error | Inr res' \<Rightarrow> Answered res')"

text \<open>
  \<open>cors(corsOptions)\<close> (lines 246-253 and 285) is the library's middleware. With no
  origin configured it passes every request on untouched. Otherwise it sets the origin
  and credentials headers and, on a request whose method is \<open>OPTIONS\<close>, the methods
  (the configured verbs, joined at line 248), the allowed headers (those the request
  asks for), the maximal age and the exposed headers; and because the options do not
  set \<open>preflightContinue\<close> it then sends the response itself, with
  \<open>optionsSuccessStatus\<close> and a content length of zero: no later middleware sees the
  request. On any other method it adds the exposed headers and passes the request on.
  What the library adds to the \<open>Vary\<close> header is left out.
\<close>

definition exposed_headers :: "webdav_config \<Rightarrow> express_res \<Rightarrow> express_res" where
  "exposed_headers cfg res =
     (if CORS_ALLOW_HEADERS cfg = [] then res
      else setHeader ''Access-Control-Expose-Headers'' (CORS_ALLOW_HEADERS cfg) res)"

definition allowed_headers :: "express_req \<Rightarrow> express_res \<Rightarrow> express_res" where
  "allowed_headers req res =
     (case header req ''access-control-request-headers'' of
        None \<Rightarrow> res
      | Some h \<Rightarrow> if h = [] then res else setHeader ''Access-Control-Allow-Headers'' h res)"

definition corsMiddleware :: "webdav_config \<Rightarrow> express_req \<Rightarrow> express_res \<Rightarrow> outcome" where
  "corsMiddleware cfg req res =
     (if CORS_ALLOW_ORIGIN cfg = [] then Continue req res
      else
        (let res1 = setHeader ''Access-Control-Allow-Origin'' (CORS_ALLOW_ORIGIN cfg) res;
             res2 = setHeader ''Access-Control-Allow-Credentials'' ''true'' res1
         in if req_method req = ''OPTIONS'' then
              (let res3 = setHeader ''Access-Control-Allow-Methods''
                            (join_with '','' (SUPPORTED_METHODS cfg)) res2;
                   res4 = allowed_headers req res3;
                   res5 = setHeader ''Access-Control-Max-Age'' ''86400'' res4;
                   res6 = exposed_headers cfg res5;
                   res7 = setHeader ''Content-Length'' ''0'' res6
               in end_response (res7\<lparr>res_statusCode := 204\<rparr>))
            else Continue req (exposed_headers cfg res2)))"

text \<open>
  \<open>methodOverride(header)\<close> (lines 286-288) is the library's middleware as well. It
  touches only a request that arrived as a \<open>POST\<close>: the first entry of the named
  header, trimmed and in upper case, becomes the method of the request when it is not
  empty and is a method the runtime knows (\<open>http.METHODS\<close>, a parameter). The
  method the request arrived with is remembered across the three instances. Letters are
  the ASCII ones, as in every method name; what the library adds to the \<open>Vary\<close> header
  is left out here too.
\<close>

definition upper_char :: "char \<Rightarrow> char" where
  "upper_char c =
     (let n = (of_char c :: nat) in if 97 \<le> n \<and> n \<le> 122 then char_of (n - 32) else c)"

definition is_blank :: "char \<Rightarrow> bool" where
  "is_blank c = (c = CHR 0x20 \<or> c = CHR 0x09 \<or> c = CHR 0x0A \<or> c = CHR 0x0B \<or> c = CHR 0x0C
                 \<or> c = CHR 0x0D \<or> c = CHR 0xA0)"

definition trim :: "string \<Rightarrow> string" where
  "trim s = rev (dropWhile is_blank (rev (dropWhile is_blank s)))"

definition methodOverride :: "string \<Rightarrow> string list \<Rightarrow> string \<Rightarrow> express_req \<Rightarrow> express_req" where
  "methodOverride name http_METHODS originalMethod req =
     (if originalMethod \<noteq> ''POST'' then req
      else
        (case header req name of
           None \<Rightarrow> req
         | Some h \<Rightarrow>
             if h = [] then req
             else
               (let method = map upper_char (trim (takeWhile (\<lambda>c. c \<noteq> CHR '','') h))
                in if method \<noteq> [] \<and> method \<in> set http_METHODS then req\<lparr>req_method := method\<rparr>
                   else req)))"

text \<open>The middleware of lines 292-306.\<close>

definition davMiddleware :: "webdav_config \<Rightarrow> express_req \<Rightarrow> express_res \<Rightarrow> outcome" where
  "davMiddleware webdavConfig req res =
     (if startsWith (req_path req) ''/dav'' then
        (let res1 = setHeader ''Access-Control-Allow-Methods''
                      (join_with '','' (SUPPORTED_METHODS webdavConfig)) res;
             res2 = setHeader ''Allow'' (join_with '','' (SUPPORTED_METHODS webdavConfig)) res1
         in if req_method req = ''OPTIONS'' then
              (let res3 = setHeader ''DAV'' (RESPONSE_HEADERS_DAV webdavConfig) res2;
                   res4 = setHeader ''MS-Author-Via'' (RESPONSE_HEADERS_MS_Author_Via webdavConfig) res3
               in end_response (res4\<lparr>res_statusCode := 204\<rparr>))
            else Continue req res2)
      else Continue req res)"

text \<open>
  The middleware of lines 285-306 in the order of its registration. The routes
  registered before it (lines 272-277) write a debug message and pass the request on.
\<close>

definition baseMiddleware :: "webdav_config \<Rightarrow> string list \<Rightarrow> express_req \<Rightarrow> express_res \<Rightarrow> outcome" where
  "baseMiddleware cfg http_METHODS req res =
     (case corsMiddleware cfg req res of
        Continue req1 res1 \<Rightarrow>
          (let originalMethod = req_method req1;
               req2 = methodOverride ''x-http-method-override'' http_METHODS originalMethod req1;
               req3 = methodOverride ''x-http-method'' http_METHODS originalMethod req2;
               req4 = methodOverride ''x-method-override'' http_METHODS originalMethod req3
           in davMiddleware cfg req4 res1)
      | answer \<Rightarrow> answer)"

text \<open>
  A configuration with the usual values of a class 1 and 2 WebDAV server that allows
  every origin, the same without a CORS origin, and some methods of the runtime.
\<close>

definition sample_config :: webdav_config where
  "sample_config = \<lparr>SUPPORTED_METHODS = [''OPTIONS'', ''PROPFIND'', ''MKCOL'', ''PUT''],
     RESPONSE_HEADERS_DAV = ''1,2'', RESPONSE_HEADERS_MS_Author_Via = ''DAV'',
     CORS_ALLOW_ORIGIN = ''*'', CORS_ALLOW_HEADERS = ''ETag''\<rparr>"

definition closed_config :: webdav_config where
  "closed_config = sample_config\<lparr>CORS_ALLOW_ORIGIN := []\<rparr>"

definition sample_METHODS :: "string list" where
  "sample_METHODS = [''GET'', ''POST'', ''PUT'', ''DELETE'', ''OPTIONS'', ''PROPFIND'', ''MKCOL'']"

text \<open>
  The answer of \<open>cors\<close> to a preflight request under the first configuration, and the
  answer of the namespace middleware under the second.
\<close>

definition cors_answer :: express_res where
  "cors_answer =
     \<lparr>res_statusCode = 204,
      res_headers = [(''Access-Control-Allow-Origin'', ''*''),
                     (''Access-Control-Allow-Credentials'', ''true''),
                     (''Access-Control-Allow-Methods'', ''OPTIONS,PROPFIND,MKCOL,PUT''),
                     (''Access-Control-Max-Age'', ''86400''),
                     (''Access-Control-Expose-Headers'', ''ETag''),
                     (''Content-Length'', ''0'')],
      res_body = NoBody, res_ended = True\<rparr>"

definition dav_answer :: express_res where
  "dav_answer =
     \<lparr>res_statusCode = 204,
      res_headers = [(''Access-Control-Allow-Methods'', ''OPTIONS,PROPFIND,MKCOL,PUT''),
                     (''Allow'', ''OPTIONS,PROPFIND,MKCOL,PUT''),
                     (''DAV'', ''1,2''),
                     (''MS-Author-Via'', ''DAV'')],
      res_body = NoBody, res_ended = True\<rparr>"


section \<open>The multipart spooling middleware\<close>

text \<open>
  \<open>crypto.randomBytes(16).toString("hex")\<close>: two lower-case hexadecimal digits for each
  byte. The name of the temporary file is \<open>upload-\<close> followed by these digits, joined
  to \<open>os.tmpdir()\<close>.
\<close>

definition toString_hex :: "nat list \<Rightarrow> string" where
  "toString_hex bytes = concat (map hex_byte bytes)"

definition tempFileName :: "nat list \<Rightarrow> string" where
  "tempFileName randomBytes = ''upload-'' @ toString_hex randomBytes"

definition path_join :: "string \<Rightarrow> string \<Rightarrow> string" where
  "path_join dir name = dir @ ''/'' @ name"

text \<open>
  The state the middleware and its event handlers share for one request: the request
  (with its \<open>tempFilePath\<close> annotation), the constant \<open>tempFilePath\<close> of the closure
  when spooling was set up, the files that exist with their contents, the write stream
  (whether it still takes writes, whether it has opened its file, and the bytes it
  holds until then), the console, the calls of \<open>next\<close> made so far (\<open>None\<close> for
  \<open>next()\<close>, \<open>Some e\<close> for \<open>next(e)\<close>), and the calls of \<open>fs.unlinkSync\<close> made so far with
  their success.
\<close>

record spool =
  sp_req :: express_req
  sp_path :: "string option"
  sp_files :: "string \<Rightarrow> nat list option"
  sp_stream_open :: bool
  sp_stream_fd :: bool
  sp_stream_buffer :: "nat list"
  sp_console :: console
  sp_next :: "jsval option list"
  sp_unlinks :: "(jsval \<times> bool) list"

text \<open>\<open>fs.unlinkSync(p)\<close> removes an existing file and raises otherwise.\<close>

definition unlinkSync ::
  "jsval \<Rightarrow> (string \<Rightarrow> nat list option) \<Rightarrow> jsval + (string \<Rightarrow> nat list option)" where
  "unlinkSync p files =
     (case p of
        JStr name \<Rightarrow> if files name \<noteq> None then Inr (files(name := None)) else Inl (JStr ''ENOENT'')
      | _ \<Rightarrow> Inl (TypeError ''The path argument must be of type string''))"

text \<open>
  The middleware of lines 311-370, up to the registration of the handlers. Only a
  \<open>POST\<close> whose content type contains \<open>multipart/form-data\<close> is spooled: a write stream
  on the temporary file is created (the file itself appears when the stream opens it),
  the request is piped into it, and the request is annotated with the path. Every
  other request goes to \<open>next()\<close> at once. The body of the request is not read here.
\<close>

definition multipartMiddleware ::
  "int \<Rightarrow> string \<Rightarrow> nat list \<Rightarrow> express_req \<Rightarrow> (string \<Rightarrow> nat list option) \<Rightarrow> console \<Rightarrow> spool" where
  "multipartMiddleware lvl tmpdir randomBytes req files out =
     (if req_method req = ''POST''
         \<and> (case header req ''content-type'' of
               Some ct \<Rightarrow> ct \<noteq> [] \<and> str_includes ct ''multipart/form-data''
             | None \<Rightarrow> False) then
        (let tempFilePath = path_join tmpdir (tempFileName randomBytes)
         in \<lparr>sp_req = req\<lparr>req_tempFilePath := JStr tempFilePath\<rparr>,
             sp_path = Some tempFilePath,
             sp_files = files,
             sp_stream_open = True,
             sp_stream_fd = False,
             sp_stream_buffer = [],
             sp_console = logMessage lvl LDebug (MultipartDetected (req_path req)) out,
             sp_next = [],
             sp_unlinks = []\<rparr>)
      else
        \<lparr>sp_req = req, sp_path = None, sp_files = files, sp_stream_open = False,
         sp_stream_fd = False, sp_stream_buffer = [],
         sp_console = out, sp_next = [None], sp_unlinks = []\<rparr>)"

text \<open>
  The events of the request: the write stream has opened its file, a chunk of the
  request body has arrived (the source has no listener of its own for these two; they
  are the work of \<open>fs.createWriteStream\<close> and \<open>req.pipe\<close>), \<open>finish\<close> and \<open>error\<close> of
  \<open>fileStream\<close>, \<open>finish\<close> of the response, \<open>error\<close> of the request.
\<close>

datatype event =
    FileStreamOpen
  | ReqData "nat list"
  | FileStreamFinish
  | FileStreamError jsval
  | ResFinish
  | ReqError jsval

text \<open>
  \<open>fs.createWriteStream(tempFilePath)\<close>: opening creates the file, or empties it, and
  writes what the stream was given in the meantime.
\<close>

definition on_fileStream_open :: "string \<Rightarrow> spool \<Rightarrow> spool" where
  "on_fileStream_open tempFilePath st =
     st\<lparr>sp_files := (sp_files st)(tempFilePath \<mapsto> sp_stream_buffer st),
        sp_stream_fd := True,
        sp_stream_buffer := []\<rparr>"

text \<open>
  \<open>req.pipe(fileStream)\<close>: a chunk is written to the stream as it arrived, while the
  stream takes writes. It is appended to the file once the stream has opened it (to
  nothing that has a name when the file has been removed since) and held back until
  then.
\<close>

definition on_req_data :: "string \<Rightarrow> nat list \<Rightarrow> spool \<Rightarrow> spool" where
  "on_req_data tempFilePath chunk st =
     (if \<not> sp_stream_open st then st
      else if sp_stream_fd st then
        (case sp_files st tempFilePath of
           None \<Rightarrow> st
         | Some written \<Rightarrow> st\<lparr>sp_files := (sp_files st)(tempFilePath \<mapsto> written @ chunk)\<rparr>)
      else st\<lparr>sp_stream_buffer := sp_stream_buffer st @ chunk\<rparr>)"

text \<open>Lines 329-332.\<close>

definition on_fileStream_finish :: "int \<Rightarrow> string \<Rightarrow> spool \<Rightarrow> spool" where
  "on_fileStream_finish lvl tempFilePath st =
     st\<lparr>sp_stream_open := False,
        sp_stream_fd := False,
        sp_console := logMessage lvl LDebug (MultipartSaved tempFilePath) (sp_console st),
        sp_next := sp_next st @ [None]\<rparr>"

text \<open>Lines 335-344: the removal is tried and its failure ignored.\<close>

definition on_fileStream_error :: "int \<Rightarrow> string \<Rightarrow> jsval \<Rightarrow> spool \<Rightarrow> spool" where
  "on_fileStream_error lvl tempFilePath err st =
     (let out = logMessage lvl LError (MultipartSaveFailed err) (sp_console st) in
      case unlinkSync (JStr tempFilePath) (sp_files st) of
        Inr files \<Rightarrow>
          st\<lparr>sp_stream_open := False, sp_stream_fd := False, sp_console := out, sp_files := files,
             sp_next := sp_next st @ [Some err],
             sp_unlinks := sp_unlinks st @ [(JStr tempFilePath, True)]\<rparr>
      | Inl cleanupErr \<Rightarrow>
          st\<lparr>sp_stream_open := False, sp_stream_fd := False, sp_console := out,
             sp_next := sp_next st @ [Some err],
             sp_unlinks := sp_unlinks st @ [(JStr tempFilePath, False)]\<rparr>)"

text \<open>
  Lines 347-358: the reference is cleared after \<open>unlinkSync\<close> has returned; when
  \<open>unlinkSync\<close> raises, the assignment is skipped and the failure logged.
\<close>

definition on_res_finish :: "int \<Rightarrow> spool \<Rightarrow> spool" where
  "on_res_finish lvl st =
     (let p = req_tempFilePath (sp_req st) in
      if truthy p then
        (let out = logMessage lvl LDebug (CleanupTempFile p) (sp_console st) in
         case unlinkSync p (sp_files st) of
           Inr files \<Rightarrow>
             st\<lparr>sp_req := (sp_req st)\<lparr>req_tempFilePath := JNull\<rparr>,
                sp_files := files, sp_console := out,
                sp_unlinks := sp_unlinks st @ [(p, True)]\<rparr>
         | Inl cleanupErr \<Rightarrow>
             st\<lparr>sp_console := logMessage lvl LError (CleanupFailed cleanupErr p) out,
                sp_unlinks := sp_unlinks st @ [(p, False)]\<rparr>)
      else st)"

text \<open>Lines 361-365: \<open>fileStream.end()\<close> stops the stream from taking writes.\<close>

definition on_req_error :: "int \<Rightarrow> jsval \<Rightarrow> spool \<Rightarrow> spool" where
  "on_req_error lvl err st =
     st\<lparr>sp_stream_open := False,
        sp_console := logMessage lvl LError (MultipartRequestError err) (sp_console st),
        sp_next := sp_next st @ [Some err]\<rparr>"

text \<open>An event reaches its handler only when the middleware has set the spooling up.\<close>

definition handle_event :: "int \<Rightarrow> event \<Rightarrow> spool \<Rightarrow> spool" where
  "handle_event lvl ev st =
     (case sp_path st of
        None \<Rightarrow> st
      | Some tempFilePath \<Rightarrow>
          (case ev of
             FileStreamOpen \<Rightarrow> on_fileStream_open tempFilePath st
           | ReqData chunk \<Rightarrow> on_req_data tempFilePath chunk st
           | FileStreamFinish \<Rightarrow> on_fileStream_finish lvl tempFilePath st
           | FileStreamError err \<Rightarrow> on_fileStream_error lvl tempFilePath err st
           | ResFinish \<Rightarrow> on_res_finish lvl st
           | ReqError err \<Rightarrow> on_req_error lvl err st))"

fun handle_events :: "int \<Rightarrow> event list \<Rightarrow> spool \<Rightarrow> spool" where
  "handle_events lvl [] st = st"
| "handle_events lvl (ev # evs) st = handle_events lvl evs (handle_event lvl ev st)"

text \<open>\<open>FileStreamError\<close> events in a trace.\<close>

fun is_stream_error :: "event \<Rightarrow> bool" where
  "is_stream_error (FileStreamError err) = True"
| "is_stream_error ev = False"

text \<open>Requests for examples: an upload, and the same with another method or subtype.\<close>

definition upload_request :: "string \<Rightarrow> string \<Rightarrow> express_req" where
  "upload_request m ct = \<lparr>req_method = m, req_path = ''/api/upload'',
     req_originalUrl = ''/api/upload'', req_headers = [(''content-type'', ct)],
     req_body = JUndefined, req_rawBody = JUndefined, req_tempFilePath = JUndefined,
     req_encrypted = False, req_env = None\<rparr>"

definition sample_bytes :: "nat list" where
  "sample_bytes = [0, 1, 2, 3, 4, 5, 6, 7, 8, 9, 10, 11, 12, 13, 14, 255]"

definition no_files :: "string \<Rightarrow> nat list option" where
  "no_files = (\<lambda>name. None)"

definition sample_upload :: spool where
  "sample_upload = multipartMiddleware 2 ''/tmp'' sample_bytes
     (upload_request ''POST'' ''multipart/form-data; boundary=x'') no_files []"

definition sample_path :: string where
  "sample_path = ''/tmp/upload-000102030405060708090a0b0c0d0eff''"


section \<open>Basic facts\<close>

lemma str_includes_nonempty: "str_includes s needle \<Longrightarrow> needle \<noteq> [] \<Longrightarrow> s \<noteq> []"
  by (cases s) simp_all


section \<open>Properties of the database initialisation middleware\<close>

lemma dbInitMiddleware_initialized:
  "isDbInitialized srv \<Longrightarrow>
   dbInitMiddleware lvl open_db check secret srv req =
     (srv, Next (req\<lparr>req_env := Some \<lparr>ENCRYPTION_SECRET = encryption_secret secret\<rparr>\<rparr>))"
  by (simp add: dbInitMiddleware_def)

lemma dbInitMiddleware_first:
  assumes "\<not> isDbInitialized srv"
    and "initDatabase lvl open_db check (sqliteAdapter srv)
           (db_state srv, logMessage lvl LInfo FirstRequestCheck (console srv))
         = ((ad, s, out), Some e)"
  shows "dbInitMiddleware lvl open_db check secret srv req =
     (\<lparr>isDbInitialized = True, sqliteAdapter = ad, db_state = s,
       console = logMessage lvl LError (DbInitError e) out\<rparr>,
      Next (req\<lparr>req_env := Some \<lparr>ENCRYPTION_SECRET = encryption_secret secret\<rparr>\<rparr>))"
  using assms by (simp add: dbInitMiddleware_def)

lemma flaky_first_attempt:
  "initDatabase 2 flaky_open schema_ok (sqliteAdapter fresh_server)
     (db_state fresh_server, logMessage 2 LInfo FirstRequestCheck (console fresh_server))
   = ((\<lparr>dbPath = ''data/cloudpaste.db'', db = None\<rparr>, 1,
       [(LInfo, FirstRequestCheck), (LInfo, InitSqlite)]),
      Some (JStr ''SQLITE_CANTOPEN''))"
  by (simp add: initDatabase_def init_def flaky_open_def fresh_server_def logMessage_def)

text \<open>
  C4 (as stated, refuted): the claim promises that a later request retries a failed
  initialisation. With an \<open>open\<close> that fails once and would succeed on a second attempt
  (the engine state counts the attempts), the first request leaves the flag set, the
  connection \<open>null\<close> and one attempt made; the second request changes nothing: no
  second attempt is made.
\<close>

theorem C4_no_retry_counterexample:
  "dbInitMiddleware 2 flaky_open schema_ok None fresh_server plain_get
     = (failed_server, Next (with_env plain_get))
   \<and> dbInitMiddleware 2 flaky_open schema_ok None failed_server plain_get
     = (failed_server, Next (with_env plain_get))
   \<and> snd (flaky_open ''data/cloudpaste.db'' (db_state failed_server)) = Inr idle_engine"
  by (simp add: dbInitMiddleware_def initDatabase_def init_def flaky_open_def fresh_server_def
      failed_server_def with_env_def encryption_secret_def logMessage_def)

text \<open>
  C4 (amended): if the initialisation fails during the first request, the error is
  logged at error level (at any configured log level that prints errors, that is one
  that is not negative), the request still proceeds to the next handler with its
  environment attached, and the flag is left set; every later request therefore skips
  the initialisation, whatever it would do then: the server state is unchanged and the
  request proceeds.
\<close>

theorem C4_init_failure_logged_once:
  assumes "\<not> isDbInitialized srv"
    and "initDatabase lvl open_db check (sqliteAdapter srv)
           (db_state srv, logMessage lvl LInfo FirstRequestCheck (console srv))
         = ((ad, s, out), Some e)"
    and "0 \<le> lvl"
    and "dbInitMiddleware lvl open_db check secret srv req1 = (srv1, out1)"
  shows "out1 = Next (req1\<lparr>req_env := Some \<lparr>ENCRYPTION_SECRET = encryption_secret secret\<rparr>\<rparr>)
       \<and> last (console srv1) = (LError, DbInitError e)
       \<and> sqliteAdapter srv1 = ad \<and> db_state srv1 = s
       \<and> isDbInitialized srv1
       \<and> dbInitMiddleware lvl open_db' check' secret srv1 req2 =
           (srv1, Next (req2\<lparr>req_env := Some \<lparr>ENCRYPTION_SECRET = encryption_secret secret\<rparr>\<rparr>))"
proof -
  from dbInitMiddleware_first [OF assms(1,2), of secret req1] assms(4)
  have s1: "srv1 = \<lparr>isDbInitialized = True, sqliteAdapter = ad, db_state = s,
      console = logMessage lvl LError (DbInitError e) out\<rparr>"
    and o1: "out1 = Next (req1\<lparr>req_env := Some \<lparr>ENCRYPTION_SECRET = encryption_secret secret\<rparr>\<rparr>)"
    by simp_all
  from s1 have flag: "isDbInitialized srv1" by simp
  from s1 \<open>0 \<le> lvl\<close> have lg: "last (console srv1) = (LError, DbInitError e)"
    by (simp add: logMessage_def)
  from s1 have w: "sqliteAdapter srv1 = ad \<and> db_state srv1 = s" by simp
  from flag have "dbInitMiddleware lvl open_db' check' secret srv1 req2 =
      (srv1, Next (req2\<lparr>req_env := Some \<lparr>ENCRYPTION_SECRET = encryption_secret secret\<rparr>\<rparr>))"
    by (rule dbInitMiddleware_initialized)
  with o1 lg w flag show ?thesis by simp
qed

theorem C4_init_failure_logged_once_witness:
  "dbInitMiddleware 2 flaky_open schema_ok None fresh_server plain_get
     = (failed_server, Next (with_env plain_get))
   \<and> last (console failed_server) = (LError, DbInitError (JStr ''SQLITE_CANTOPEN''))
   \<and> db (sqliteAdapter failed_server) = None
   \<and> db_state failed_server = 1
   \<and> isDbInitialized failed_server
   \<and> dbInitMiddleware 2 flaky_open schema_ok None failed_server plain_get
     = (failed_server, Next (with_env plain_get))"
proof -
  have r: "dbInitMiddleware 2 flaky_open schema_ok None fresh_server plain_get
      = (failed_server, Next (with_env plain_get))"
    by (simp add: dbInitMiddleware_def initDatabase_def init_def flaky_open_def fresh_server_def
        failed_server_def with_env_def encryption_secret_def logMessage_def)
  have a: "\<not> isDbInitialized fresh_server" by (simp add: fresh_server_def)
  have c: "(0::int) \<le> 2" by simp
  from C4_init_failure_logged_once [OF a flaky_first_attempt c r, of flaky_open schema_ok plain_get] r
  show ?thesis by (simp add: encryption_secret_def with_env_def failed_server_def)
qed


section \<open>Properties of the SQLiteAdapter\<close>

subsection \<open>The loop of batch\<close>

lemma batch_loop_append:
  "batch_loop lvl ad (xs @ ys) acc w =
     (case batch_loop lvl ad xs acc w of
        (w', Inl e) \<Rightarrow> (w', Inl e)
      | (w', Inr rs) \<Rightarrow> batch_loop lvl ad ys rs w')"
  by (induction xs arbitrary: acc w) (auto split: prod.splits sum.splits)

lemma batch_loop_results:
  "batch_loop lvl ad sts acc w = (w', Inr rs) \<Longrightarrow>
   \<exists>rs'. rs = acc @ rs' \<and>
     list_all2 (\<lambda>st r. \<exists>w1 w2. batch_statement lvl ad st w1 = (w2, Inr r)) sts rs'"
proof (induction sts arbitrary: acc w)
  case Nil
  then show ?case by simp
next
  case (Cons st sts)
  from Cons.prems obtain w1 r where
    st: "batch_statement lvl ad st w = (w1, Inr r)"
    and rest: "batch_loop lvl ad sts (acc @ [r]) w1 = (w', Inr rs)"
    by (auto split: prod.splits sum.splits)
  from Cons.IH [OF rest] obtain rs' where
    rs: "rs = (acc @ [r]) @ rs'"
    and all2: "list_all2 (\<lambda>st r. \<exists>w1 w2. batch_statement lvl ad st w1 = (w2, Inr r)) sts rs'"
    by blast
  from st have "\<exists>wa wb. batch_statement lvl ad st wa = (wb, Inr r)" by blast
  with all2 have "list_all2 (\<lambda>st r. \<exists>w1 w2. batch_statement lvl ad st w1 = (w2, Inr r)) (st # sts) (r # rs')"
    by simp
  moreover from rs have "rs = acc @ (r # rs')" by simp
  ultimately show ?case by blast
qed

lemma batch_loop_stops:
  assumes "batch_loop lvl ad pre acc w = (w1, Inr rs)"
    and "batch_statement lvl ad bad w1 = (w2, Inl e)"
  shows "batch_loop lvl ad (pre @ bad # rest) acc w = (w2, Inl e)"
  using assms by (simp add: batch_loop_append)

lemma batch_try_success_results:
  assumes "batch_try lvl ad sts w = (w', Inr rs)"
  shows "list_all2 (\<lambda>st r. \<exists>w1 w2. batch_statement lvl ad st w1 = (w2, Inr r)) sts rs"
proof -
  from assms obtain s1 b w2 where
    "batch_loop lvl ad sts [] (s1, snd w) = (w2, Inr rs)"
    by (auto simp: batch_try_def split: prod.splits sum.splits)
  from batch_loop_results [OF this] show ?thesis by simp
qed

lemma batch_success:
  "batch lvl ad sts w = (w', Inr rs) \<Longrightarrow>
   batch_try lvl ad sts (fst w, logMessage lvl LInfo (BatchStart (length sts)) (snd w)) = (w', Inr rs)"
  by (auto simp: batch_def Let_def split: prod.splits sum.splits)

lemma batch_failure:
  assumes "batch_try lvl ad sts (fst w, logMessage lvl LInfo (BatchStart (length sts)) (snd w)) = (w1, Inl e)"
  shows "snd (batch lvl ad sts w) = Inl e"
    and "fst (fst (batch lvl ad sts w)) = fst (call_exec (db ad) (JStr ''ROLLBACK'') (fst w1))"
    and "snd (call_exec (db ad) (JStr ''ROLLBACK'') (fst w1)) = Inl re \<Longrightarrow> 0 \<le> lvl \<Longrightarrow>
         last (snd (fst (batch lvl ad sts w))) = (LError, RollbackFailed re)"
  using assms by (auto simp: batch_def Let_def logMessage_def split: prod.splits sum.splits)

subsection \<open>Batches on the transactional engine\<close>

lemma txn_call_data_keeps:
  assumes "sq_kind E sql = Data" and "in_txn t c"
  shows "in_txn (fst (txn_call E m sql ps t)) c"
  using assms by (auto simp: txn_call_def in_txn_def)

lemma txn_script_data_keeps:
  assumes "list_all (\<lambda>x. sq_kind E x = Data) xs" and "in_txn t c"
  shows "in_txn (fst (txn_script E xs t)) c"
  using assms
proof (induction xs arbitrary: t)
  case Nil
  then show ?case by simp
next
  case (Cons x xs)
  from Cons.prems have k: "sq_kind E x = Data" and ks: "list_all (\<lambda>x. sq_kind E x = Data) xs"
    by simp_all
  have step: "in_txn (fst (txn_call E MExec x [] t)) c"
    using k Cons.prems(2) by (rule txn_call_data_keeps)
  show ?case
  proof (cases "txn_call E MExec x [] t")
    case (Pair t1 r)
    with step have t1: "in_txn t1 c" by simp
    show ?thesis
    proof (cases r)
      case (Inl e)
      with Pair t1 show ?thesis by simp
    next
      case (Inr v)
      with Pair Cons.IH [OF ks t1] show ?thesis by simp
    qed
  qed
qed

lemma call_exec_txn:
  "call_exec (Some (txn_engine E)) sql t = txn_script E (sq_script E sql) t"
  by (simp add: call_exec_def txn_engine_def)

lemma call_run_txn:
  "call_run (Some (txn_engine E)) sql ps t = txn_call E MRun sql ps t"
  by (simp add: call_run_def txn_engine_def)

lemma control_exec:
  assumes "sq_script E c = [c]" and "sq_kind E c \<noteq> Data"
  shows "call_exec (Some (txn_engine E)) c t = txn_call E MExec c [] t"
  using assms
  by (cases "sq_kind E c"; cases "pending t")
     (auto simp: call_exec_txn txn_call_def split: option.splits)

lemma run_txn_keeps:
  assumes "deref h this = Some st" and "stmt_db st = Some (txn_engine E)"
    and "sq_kind E (stmt_sql st) = Data" and "in_txn (fst w) c"
  shows "in_txn (fst (fst (run lvl this h w))) c"
proof -
  have "fst (fst (run lvl this h w)) = fst (txn_call E MRun (stmt_sql st) (stmt_params st) (fst w))"
    using assms(1,2) by (simp add: run_def call_run_txn split: prod.splits sum.splits)
  with assms(3,4) show ?thesis by (simp add: txn_call_data_keeps)
qed

lemma batch_statement_keeps:
  assumes dbe: "db ad = Some (txn_engine E)"
    and k: "list_all (\<lambda>x. sq_kind E x = Data) (engine_texts E st)"
    and t: "in_txn (fst w) c"
  shows "in_txn (fst (fst (batch_statement lvl ad st w))) c"
proof (cases "typeof st = TString")
  case True
  then have "fst (fst (batch_statement lvl ad st w)) = fst (txn_script E (sq_script E st) (fst w))"
    using dbe by (simp add: batch_statement_def call_exec_txn split: prod.splits sum.splits)
  moreover from True k have "list_all (\<lambda>x. sq_kind E x = Data) (sq_script E st)"
    by (simp add: engine_texts_def)
  ultimately show ?thesis using t by (simp add: txn_script_data_keeps)
next
  case False
  show ?thesis
  proof (cases "get_prop st ''sql''")
    case (Inl e)
    then have "st = JUndefined \<or> st = JNull" by (cases st) auto
    then have "batch_statement lvl ad st w = (w, Inl e)"
      using Inl by (auto simp: batch_statement_def)
    with t show ?thesis by simp
  next
    case (Inr sql)
    then obtain params tx where p: "get_prop st ''params'' = Inr params"
      and x: "get_prop st ''text'' = Inr tx"
      by (cases st) auto
    consider (arr) "truthy sql \<and> isArray params"
      | (undef) "\<not> (truthy sql \<and> isArray params)" "truthy sql \<and> typeof params = TUndefined"
      | (prep) "\<not> (truthy sql \<and> isArray params)" "\<not> (truthy sql \<and> typeof params = TUndefined)"
      by blast
    then show ?thesis
    proof cases
      case arr
      then obtain ps where ps: "spread params = Inr ps" by (cases params) auto
      from arr k False Inr p x have kd: "sq_kind E sql = Data" by (simp add: engine_texts_def)
      have "fst (fst (batch_statement lvl ad st w)) = fst (txn_call E MRun sql ps (fst w))"
        using False Inr p x arr ps dbe
        by (simp add: batch_statement_def call_run_txn split: prod.splits sum.splits)
      with kd t show ?thesis by (simp add: txn_call_data_keeps)
    next
      case undef
      from undef k False Inr p x have kd: "sq_kind E sql = Data" by (simp add: engine_texts_def)
      have "fst (fst (batch_statement lvl ad st w)) = fst (txn_call E MRun sql [] (fst w))"
        using False Inr p x undef dbe
        by (auto simp: batch_statement_def call_run_txn split: prod.splits sum.splits)
      with kd t show ?thesis by (simp add: txn_call_data_keeps)
    next
      case prep
      define q where "q = (if truthy tx then tx else sql)"
      from False Inr p x prep have "engine_texts E st = [q]"
        by (auto simp: engine_texts_def q_def)
      with k have kd: "sq_kind E q = Data" by simp
      have pq: "prepare ad q [] = (0, [\<lparr>stmt_sql = q, stmt_params = [], stmt_db = db ad\<rparr>])"
        by (simp add: prepare_def)
      show ?thesis
      proof (cases "truthy params")
        case True
        show ?thesis
        proof (cases "spread params")
          case (Inl e)
          then have "batch_statement lvl ad st w = (w, Inl e)"
            using False \<open>get_prop st ''sql'' = Inr sql\<close> p x True
            by (simp add: batch_statement_def Let_def prep pq q_def [symmetric])
          with t show ?thesis by simp
        next
          case (Inr ps)
          let ?h = "[\<lparr>stmt_sql = q, stmt_params = ps, stmt_db = db ad\<rparr>]"
          have "batch_statement lvl ad st w = run lvl 0 ?h w"
            using False \<open>get_prop st ''sql'' = Inr sql\<close> p x True Inr
            by (simp add: batch_statement_def Let_def prep pq q_def [symmetric] bind_def deref_def)
          moreover have "in_txn (fst (fst (run lvl 0 ?h w))) c"
            by (rule run_txn_keeps [OF _ _ _ t, where E = E and st = "\<lparr>stmt_sql = q, stmt_params = ps, stmt_db = db ad\<rparr>"])
               (simp_all add: deref_def dbe kd)
          ultimately show ?thesis by simp
        qed
      next
        case nt: False
        let ?h = "[\<lparr>stmt_sql = q, stmt_params = [], stmt_db = db ad\<rparr>]"
        have "batch_statement lvl ad st w = run lvl 0 ?h w"
          using False Inr p x nt by (simp add: batch_statement_def Let_def prep pq q_def [symmetric])
        moreover have "in_txn (fst (fst (run lvl 0 ?h w))) c"
          by (rule run_txn_keeps [OF _ _ _ t, where E = E and st = "\<lparr>stmt_sql = q, stmt_params = [], stmt_db = db ad\<rparr>"])
             (simp_all add: deref_def dbe kd)
        ultimately show ?thesis by simp
      qed
    qed
  qed
qed

lemma batch_loop_keeps:
  assumes dbe: "db ad = Some (txn_engine E)"
    and k: "control_free E sts"
    and t: "in_txn (fst w) c"
  shows "in_txn (fst (fst (batch_loop lvl ad sts acc w))) c"
  using k t
proof (induction sts arbitrary: acc w)
  case Nil
  then show ?case by simp
next
  case (Cons st sts)
  from Cons.prems(1) have k1: "list_all (\<lambda>x. sq_kind E x = Data) (engine_texts E st)"
    and ks: "control_free E sts"
    by (simp_all add: control_free_def)
  have step: "in_txn (fst (fst (batch_statement lvl ad st w))) c"
    by (rule batch_statement_keeps [OF dbe k1 Cons.prems(2)])
  show ?case
  proof (cases "batch_statement lvl ad st w")
    case (Pair w1 r)
    with step have t1: "in_txn (fst w1) c" by simp
    show ?thesis
    proof (cases r)
      case (Inl e)
      with Pair t1 show ?thesis by simp
    next
      case (Inr res)
      with Pair have "batch_loop lvl ad (st # sts) acc w = batch_loop lvl ad sts (acc @ [res]) w1"
        by simp
      moreover have "in_txn (fst (fst (batch_loop lvl ad sts (acc @ [res]) w1))) c"
        by (rule Cons.IH [OF ks t1])
      ultimately show ?thesis by simp
    qed
  qed
qed

text \<open>
  The state in which the \<open>try\<close> body of \<open>batch\<close> leaves the connection: after a failure
  a transaction on the old data is open; after a success the pending data is committed.
\<close>

lemma batch_try_state:
  assumes dbe: "db ad = Some (txn_engine E)"
    and rc: "reads_control E"
    and k: "control_free E sts"
    and tr: "batch_try lvl ad sts (t, out) = ((t1, out1), r)"
  shows "(case r of
            Inl e \<Rightarrow> in_txn t1 (committed t)
          | Inr rs \<Rightarrow>
              pending t = None \<and> pending t1 = None
              \<and> pending (fst (fst (batch_loop lvl ad sts [] (t\<lparr>pending := Some (committed t)\<rparr>, out))))
                  = Some (committed t1))"
proof -
  from rc have sb: "sq_script E (JStr ''BEGIN TRANSACTION'') = [JStr ''BEGIN TRANSACTION'']"
    and kb: "sq_kind E (JStr ''BEGIN TRANSACTION'') = TxBegin"
    and sc: "sq_script E (JStr ''COMMIT'') = [JStr ''COMMIT'']"
    and kc: "sq_kind E (JStr ''COMMIT'') = TxCommit"
    by (simp_all add: reads_control_def)
  have xb: "call_exec (db ad) (JStr ''BEGIN TRANSACTION'') s = txn_call E MExec (JStr ''BEGIN TRANSACTION'') [] s" for s
    using dbe kb by (simp add: control_exec [OF sb])
  have xc: "call_exec (db ad) (JStr ''COMMIT'') s = txn_call E MExec (JStr ''COMMIT'') [] s" for s
    using dbe kc by (simp add: control_exec [OF sc])
  show ?thesis
  proof (cases "pending t")
    case (Some d)
    then have "txn_call E MExec (JStr ''BEGIN TRANSACTION'') [] t =
        (t, Inl (JStr ''cannot start a transaction within a transaction''))"
      using kb by (simp add: txn_call_def)
    with tr have "t1 = t" and "r = Inl (JStr ''cannot start a transaction within a transaction'')"
      by (auto simp: batch_try_def xb)
    with Some show ?thesis by (simp add: in_txn_def)
  next
    case None
    let ?t0 = "t\<lparr>pending := Some (committed t)\<rparr>"
    from None have b: "txn_call E MExec (JStr ''BEGIN TRANSACTION'') [] t = (?t0, Inr JUndefined)"
      using kb by (simp add: txn_call_def)
    obtain w2 r2 where lp: "batch_loop lvl ad sts [] (?t0, out) = (w2, r2)"
      by (cases "batch_loop lvl ad sts [] (?t0, out)")
    have "in_txn (fst (fst (batch_loop lvl ad sts [] (?t0, out)))) (committed t)"
      by (rule batch_loop_keeps [OF dbe k]) (simp add: in_txn_def)
    with lp have inv: "in_txn (fst w2) (committed t)" by simp
    show ?thesis
    proof (cases r2)
      case (Inl e2)
      then have "batch_try lvl ad sts (t, out) = (w2, Inl e2)"
        using b lp by (simp add: batch_try_def xb)
      with tr inv show ?thesis by auto
    next
      case (Inr rs)
      from inv obtain d where pd: "pending (fst w2) = Some d" and cd: "committed (fst w2) = committed t"
        by (auto simp: in_txn_def)
      show ?thesis
      proof (cases "sq_commit_error E d")
        case no: None
        with pd have "txn_call E MExec (JStr ''COMMIT'') [] (fst w2) =
            (\<lparr>committed = d, pending = None\<rparr>, Inr JUndefined)"
          using kc by (simp add: txn_call_def)
        then have "batch_try lvl ad sts (t, out) = ((\<lparr>committed = d, pending = None\<rparr>, snd w2), Inr rs)"
          using b lp Inr by (simp add: batch_try_def xb xc)
        with tr have "t1 = \<lparr>committed = d, pending = None\<rparr>" and "r = Inr rs" by simp_all
        with None lp pd show ?thesis by simp
      next
        case (Some ce)
        with pd have "txn_call E MExec (JStr ''COMMIT'') [] (fst w2) = (fst w2, Inl ce)"
          using kc by (simp add: txn_call_def)
        then have "batch_try lvl ad sts (t, out) = ((fst w2, snd w2), Inl ce)"
          using b lp Inr by (simp add: batch_try_def xb xc)
        with tr inv show ?thesis by auto
      qed
    qed
  qed
qed

lemma batch_txn_failure:
  assumes dbe: "db ad = Some (txn_engine E)"
    and rc: "reads_control E"
    and k: "control_free E sts"
    and fail: "batch lvl ad sts (t, out) = ((t', out'), Inl e)"
  shows "committed t' = committed t
       \<and> (pending t' = None \<or> (\<exists>d re. pending t' = Some d \<and> sq_rollback_error E d = Some re))"
proof -
  define out0 where "out0 = logMessage lvl LInfo (BatchStart (length sts)) out"
  obtain t1 out1 r1 where tr: "batch_try lvl ad sts (t, out0) = ((t1, out1), r1)"
    by (metis surj_pair)
  from fail tr obtain e1 where r1: "r1 = Inl e1"
    by (cases r1) (auto simp: batch_def out0_def)
  from batch_try_state [OF dbe rc k tr] r1 have inv: "in_txn t1 (committed t)" by simp
  from rc have sr: "sq_script E (JStr ''ROLLBACK'') = [JStr ''ROLLBACK'']"
    and kr: "sq_kind E (JStr ''ROLLBACK'') = TxRollback"
    by (simp_all add: reads_control_def)
  have t'eq: "t' = fst (txn_call E MExec (JStr ''ROLLBACK'') [] t1)"
    using fail tr r1 dbe
    by (auto simp: batch_def out0_def Let_def control_exec [OF sr] kr split: prod.splits sum.splits)
  from inv obtain d where c1: "committed t1 = committed t" and p1: "pending t1 = Some d"
    by (auto simp: in_txn_def)
  show ?thesis
  proof (cases "sq_rollback_error E d")
    case None
    with t'eq kr c1 p1 show ?thesis by (simp add: txn_call_def)
  next
    case (Some re)
    with t'eq kr c1 p1 show ?thesis by (simp add: txn_call_def)
  qed
qed

lemma batch_txn_success:
  assumes dbe: "db ad = Some (txn_engine E)"
    and rc: "reads_control E"
    and k: "control_free E sts"
    and ok: "batch lvl ad sts (t, out) = ((t', out'), Inr rs)"
  shows "pending t = None \<and> pending t' = None
       \<and> pending (fst (fst (batch_loop lvl ad sts []
                    (t\<lparr>pending := Some (committed t)\<rparr>,
                     logMessage lvl LInfo (BatchStart (length sts)) out))))
           = Some (committed t')"
proof -
  define out0 where "out0 = logMessage lvl LInfo (BatchStart (length sts)) out"
  from ok have tr: "batch_try lvl ad sts (t, out0) = ((t', out'), Inr rs)"
    using batch_success [of lvl ad sts "(t, out)" "(t', out')" rs] by (simp add: out0_def)
  from batch_try_state [OF dbe rc k tr] show ?thesis by (simp add: out0_def)
qed

subsection \<open>The claims about prepare and batch\<close>

text \<open>
  C10: \<open>prepare(sql)\<close> creates the statement object from the text and the connection
  and does nothing else, for any text: it has no access to the engine state and no way
  to fail. \<open>bind\<close> stores the parameters in that same object, for every holder of the
  reference. \<open>run\<close>, \<open>all\<close> and \<open>first\<close> are where the engine is reached: each makes
  exactly the engine call \<open>run\<close>, \<open>all\<close> or \<open>get\<close> on the connection, with the text and
  the parameters bound last (none before the first \<open>bind\<close>), and raises exactly when
  that call fails, with its error, after logging it; otherwise \<open>run\<close> returns the
  success indicator, \<open>all\<close> the rows in a \<open>results\<close> field, and \<open>first\<close> what \<open>get\<close>
  resolved to (the first row or \<open>undefined\<close>). The engine state afterwards is the one
  the engine call left. On an adapter that has no connection yet the call on the
  connection is itself the failure: a TypeError, and the engine state is untouched.
\<close>

theorem C10_prepare_defers_engine_errors:
  assumes "prepare ad sql h = (this, h1)"
    and "bind this ps h1 = (that, h2)"
  shows "this = length h
       \<and> h1 = h @ [\<lparr>stmt_sql = sql, stmt_params = [], stmt_db = db ad\<rparr>]
       \<and> that = this
       \<and> h2 = h @ [\<lparr>stmt_sql = sql, stmt_params = ps, stmt_db = db ad\<rparr>]
       \<and> fst (bind this qs h2) = this
       \<and> snd (bind this qs h2) = h @ [\<lparr>stmt_sql = sql, stmt_params = qs, stmt_db = db ad\<rparr>]
       \<and> (db ad = Some eng \<longrightarrow>
            run lvl this h1 (s, out) =
              (case db_run eng sql [] s of
                 (s', Inr r) \<Rightarrow> ((s', out), Inr (JObj [(''success'', JBool True)]))
               | (s', Inl e) \<Rightarrow> ((s', logMessage lvl LError (SqlRunError e sql []) out), Inl e))
          \<and> run lvl this h2 (s, out) =
              (case db_run eng sql ps s of
                 (s', Inr r) \<Rightarrow> ((s', out), Inr (JObj [(''success'', JBool True)]))
               | (s', Inl e) \<Rightarrow> ((s', logMessage lvl LError (SqlRunError e sql ps) out), Inl e))
          \<and> all lvl this h2 (s, out) =
              (case db_all eng sql ps s of
                 (s', Inr rows) \<Rightarrow> ((s', out), Inr (JObj [(''results'', rows)]))
               | (s', Inl e) \<Rightarrow> ((s', logMessage lvl LError (SqlQueryError e sql ps) out), Inl e))
          \<and> first lvl this h2 (s, out) =
              (case db_get eng sql ps s of
                 (s', Inr row) \<Rightarrow> ((s', out), Inr row)
               | (s', Inl e) \<Rightarrow> ((s', logMessage lvl LError (SqlQueryError e sql ps) out), Inl e)))
       \<and> (db ad = None \<longrightarrow>
            run lvl this h2 (s, out) =
              ((s, logMessage lvl LError (SqlRunError null_db_error sql ps) out), Inl null_db_error)
          \<and> all lvl this h2 (s, out) =
              ((s, logMessage lvl LError (SqlQueryError null_db_error sql ps) out), Inl null_db_error)
          \<and> first lvl this h2 (s, out) =
              ((s, logMessage lvl LError (SqlQueryError null_db_error sql ps) out), Inl null_db_error))"
proof -
  from assms(1) have p: "this = length h"
    "h1 = h @ [\<lparr>stmt_sql = sql, stmt_params = [], stmt_db = db ad\<rparr>]"
    by (auto simp: prepare_def)
  have d1: "deref h1 this = Some \<lparr>stmt_sql = sql, stmt_params = [], stmt_db = db ad\<rparr>"
    by (simp add: p deref_def)
  from assms(2) have "bind (length h) ps h1 = (that, h2)" by (simp add: p)
  with d1 have b: "that = this"
    "h2 = h @ [\<lparr>stmt_sql = sql, stmt_params = ps, stmt_db = db ad\<rparr>]"
    by (auto simp: bind_def p)
  have d2: "deref h2 this = Some \<lparr>stmt_sql = sql, stmt_params = ps, stmt_db = db ad\<rparr>"
    by (simp add: p b deref_def)
  from d2 have again: "fst (bind this qs h2) = this"
    "snd (bind this qs h2) = h @ [\<lparr>stmt_sql = sql, stmt_params = qs, stmt_db = db ad\<rparr>]"
    by (simp_all add: bind_def p b)
  have open_db: "db ad = Some eng \<longrightarrow>
            run lvl this h1 (s, out) =
              (case db_run eng sql [] s of
                 (s', Inr r) \<Rightarrow> ((s', out), Inr (JObj [(''success'', JBool True)]))
               | (s', Inl e) \<Rightarrow> ((s', logMessage lvl LError (SqlRunError e sql []) out), Inl e))
          \<and> run lvl this h2 (s, out) =
              (case db_run eng sql ps s of
                 (s', Inr r) \<Rightarrow> ((s', out), Inr (JObj [(''success'', JBool True)]))
               | (s', Inl e) \<Rightarrow> ((s', logMessage lvl LError (SqlRunError e sql ps) out), Inl e))
          \<and> all lvl this h2 (s, out) =
              (case db_all eng sql ps s of
                 (s', Inr rows) \<Rightarrow> ((s', out), Inr (JObj [(''results'', rows)]))
               | (s', Inl e) \<Rightarrow> ((s', logMessage lvl LError (SqlQueryError e sql ps) out), Inl e))
          \<and> first lvl this h2 (s, out) =
              (case db_get eng sql ps s of
                 (s', Inr row) \<Rightarrow> ((s', out), Inr row)
               | (s', Inl e) \<Rightarrow> ((s', logMessage lvl LError (SqlQueryError e sql ps) out), Inl e))"
    by (simp add: run_def all_def first_def d1 d2 call_run_def call_all_def call_get_def
        split: prod.splits sum.splits)
  have null_db: "db ad = None \<longrightarrow>
            run lvl this h2 (s, out) =
              ((s, logMessage lvl LError (SqlRunError null_db_error sql ps) out), Inl null_db_error)
          \<and> all lvl this h2 (s, out) =
              ((s, logMessage lvl LError (SqlQueryError null_db_error sql ps) out), Inl null_db_error)
          \<and> first lvl this h2 (s, out) =
              ((s, logMessage lvl LError (SqlQueryError null_db_error sql ps) out), Inl null_db_error)"
    by (simp add: run_def all_def first_def d2 call_run_def call_all_def call_get_def)
  from p b again open_db null_db show ?thesis by blast
qed

theorem C10_prepare_defers_engine_errors_witness:
  "prepare toy_adapter (JStr ''SELEC * FRM'') [] =
     (0, [\<lparr>stmt_sql = JStr ''SELEC * FRM'', stmt_params = [], stmt_db = db toy_adapter\<rparr>])
   \<and> run 2 0 (snd (prepare toy_adapter (JStr ''SELEC * FRM'') []))
        (\<lparr>committed = [JNum 7, JNum 8], pending = None\<rparr>, [])
     = ((\<lparr>committed = [JNum 7, JNum 8], pending = None\<rparr>,
         [(LError, SqlRunError (JStr ''SQLITE_ERROR'') (JStr ''SELEC * FRM'') [])]),
        Inl (JStr ''SQLITE_ERROR''))
   \<and> all 2 0 (snd (prepare toy_adapter (JStr ''SELECT * FROM t'') []))
        (\<lparr>committed = [JNum 7, JNum 8], pending = None\<rparr>, [])
     = ((\<lparr>committed = [JNum 7, JNum 8], pending = None\<rparr>, []),
        Inr (JObj [(''results'', JArr [JNum 7, JNum 8])]))
   \<and> first 2 0 (snd (prepare toy_adapter (JStr ''SELECT * FROM t'') []))
        (\<lparr>committed = [JNum 7, JNum 8], pending = None\<rparr>, [])
     = ((\<lparr>committed = [JNum 7, JNum 8], pending = None\<rparr>, []), Inr (JNum 7))
   \<and> run 2 0 (snd (bind 0 [JNum 9] (snd (prepare toy_adapter (JStr ''INSERT INTO t VALUES (?)'') []))))
        (\<lparr>committed = [JNum 7, JNum 8], pending = None\<rparr>, [])
     = ((\<lparr>committed = [JNum 7, JNum 8, JNum 9], pending = None\<rparr>, []),
        Inr (JObj [(''success'', JBool True)]))"
proof -
  let ?t = "\<lparr>committed = [JNum 7, JNum 8], pending = None\<rparr> :: jsval list txdb"
  let ?eng = "txn_engine toy_sqlite"
  let ?bad = "JStr ''SELEC * FRM''"
  let ?sel = "JStr ''SELECT * FROM t''"
  let ?ins = "JStr ''INSERT INTO t VALUES (?)''"
  have db: "db toy_adapter = Some ?eng" by (simp add: toy_adapter_def)
  have p: "prepare toy_adapter q [] = (0, [\<lparr>stmt_sql = q, stmt_params = [], stmt_db = db toy_adapter\<rparr>])" for q
    by (simp add: prepare_def)
  have b: "bind 0 ps [\<lparr>stmt_sql = q, stmt_params = [], stmt_db = db toy_adapter\<rparr>]
      = (0, [\<lparr>stmt_sql = q, stmt_params = ps, stmt_db = db toy_adapter\<rparr>])" for q ps
    by (simp add: bind_def deref_def)
  have e1: "db_run ?eng ?bad [] ?t = (?t, Inl (JStr ''SQLITE_ERROR''))"
    by (simp add: txn_engine_def txn_call_def toy_sqlite_def toy_kind_def toy_apply_def)
  have e2: "db_all ?eng ?sel [] ?t = (?t, Inr (JArr [JNum 7, JNum 8]))"
    by (simp add: txn_engine_def txn_call_def toy_sqlite_def toy_kind_def toy_apply_def)
  have e3: "db_get ?eng ?sel [] ?t = (?t, Inr (JNum 7))"
    by (simp add: txn_engine_def txn_call_def toy_sqlite_def toy_kind_def toy_apply_def)
  have e4: "db_run ?eng ?ins [JNum 9] ?t
      = (\<lparr>committed = [JNum 7, JNum 8, JNum 9], pending = None\<rparr>, Inr (JObj [(''changes'', JNum 1)]))"
    by (simp add: txn_engine_def txn_call_def toy_sqlite_def toy_kind_def toy_apply_def)
  from C10_prepare_defers_engine_errors [OF p [of ?bad] b [of "[]" ?bad], where eng = ?eng
      and lvl = 2 and s = ?t and out = "[]" and qs = "[]"] db
  have r1: "run 2 0 [\<lparr>stmt_sql = ?bad, stmt_params = [], stmt_db = db toy_adapter\<rparr>] (?t, [])
      = (case db_run ?eng ?bad [] ?t of
           (s', Inr r) \<Rightarrow> ((s', []), Inr (JObj [(''success'', JBool True)]))
         | (s', Inl e) \<Rightarrow> ((s', logMessage 2 LError (SqlRunError e ?bad []) []), Inl e))"
    by blast
  from C10_prepare_defers_engine_errors [OF p [of ?sel] b [of "[]" ?sel], where eng = ?eng
      and lvl = 2 and s = ?t and out = "[]" and qs = "[]"] db
  have r2: "all 2 0 [\<lparr>stmt_sql = ?sel, stmt_params = [], stmt_db = db toy_adapter\<rparr>] (?t, [])
      = (case db_all ?eng ?sel [] ?t of
           (s', Inr rows) \<Rightarrow> ((s', []), Inr (JObj [(''results'', rows)]))
         | (s', Inl e) \<Rightarrow> ((s', logMessage 2 LError (SqlQueryError e ?sel []) []), Inl e))"
    and r3: "first 2 0 [\<lparr>stmt_sql = ?sel, stmt_params = [], stmt_db = db toy_adapter\<rparr>] (?t, [])
      = (case db_get ?eng ?sel [] ?t of
           (s', Inr row) \<Rightarrow> ((s', []), Inr row)
         | (s', Inl e) \<Rightarrow> ((s', logMessage 2 LError (SqlQueryError e ?sel []) []), Inl e))"
    by blast+
  from C10_prepare_defers_engine_errors [OF p [of ?ins] b [of "[JNum 9]" ?ins], where eng = ?eng
      and lvl = 2 and s = ?t and out = "[]" and qs = "[]"] db
  have r4: "run 2 0 [\<lparr>stmt_sql = ?ins, stmt_params = [JNum 9], stmt_db = db toy_adapter\<rparr>] (?t, [])
      = (case db_run ?eng ?ins [JNum 9] ?t of
           (s', Inr r) \<Rightarrow> ((s', []), Inr (JObj [(''success'', JBool True)]))
         | (s', Inl e) \<Rightarrow> ((s', logMessage 2 LError (SqlRunError e ?ins [JNum 9]) []), Inl e))"
    by blast
  show ?thesis
    unfolding p b snd_conv r1 r2 r3 r4 e1 e2 e3 e4
    by (simp add: logMessage_def)
qed

text \<open>
  C1 (as stated, refuted): the claim promises that no change of a failed batch is ever
  visible. A batch may carry raw SQL strings, which \<open>batch\<close> hands to the engine
  unexamined. When one of them is \<open>COMMIT\<close>, the transaction that \<open>batch\<close> opened ends
  there: the insert before it is committed, the failing statement after it makes
  \<open>batch\<close> issue a \<open>ROLLBACK\<close> that fails (no transaction is active), that failure is
  logged, the original error is rethrown, and the inserted row stays in the database.
\<close>

theorem C1_commit_inside_batch_counterexample:
  "batch 2 toy_adapter committing_batch (empty_db, [])
   = ((\<lparr>committed = [JNum 1], pending = None\<rparr>,
       [(LInfo, BatchStart 3),
        (LError, BatchRollback (JStr ''SQLITE_ERROR'')),
        (LError, RollbackFailed (JStr ''cannot rollback - no transaction is active''))]),
      Inl (JStr ''SQLITE_ERROR''))"
  by (simp add: batch_def batch_try_def batch_statement_def call_exec_def toy_adapter_def
      txn_engine_def txn_call_def toy_sqlite_def toy_kind_def toy_script_def toy_apply_def
      empty_db_def logMessage_def success_result_def committing_batch_def Let_def)

text \<open>
  The calls of a batch are awaited one by one on the connection that all requests
  share, so the calls of another batch may fall between them. Here a first batch has
  begun and inserted a row when a second batch runs: its \<open>BEGIN\<close> fails inside the open
  transaction and its \<open>ROLLBACK\<close> drops the transaction of the first, whose next insert
  is committed at once and stays when its last statement fails and its own \<open>ROLLBACK\<close>
  finds no transaction.
\<close>

lemma interleaved_batches:
  "(let begun = fst (call_exec (db toy_adapter) (JStr ''BEGIN TRANSACTION'') empty_db);
        first_insert = fst (batch_loop 2 toy_adapter [JStr ''INSERT INTO t VALUES (1)''] [] (begun, []));
        other_batch = fst (batch 2 toy_adapter [JStr ''DROP TABLE u''] first_insert);
        rest = fst (batch_loop 2 toy_adapter
                      [JStr ''INSERT INTO t VALUES (1)'', JStr ''INSERT INTO nonexistent_table VALUES (2)'']
                      [] other_batch)
    in call_exec (db toy_adapter) (JStr ''ROLLBACK'') (fst rest))
   = (\<lparr>committed = [JNum 1], pending = None\<rparr>,
      Inl (JStr ''cannot rollback - no transaction is active''))"
  by (simp add: batch_def batch_try_def batch_statement_def call_exec_def toy_adapter_def
      txn_engine_def txn_call_def toy_sqlite_def toy_kind_def toy_script_def toy_apply_def
      empty_db_def logMessage_def success_result_def Let_def)

text \<open>
  C1 (amended): for every batch that is free of transaction control (no statement of
  it, and no statement of a script in it, is read by the engine as beginning,
  committing or rolling back a transaction) and whose calls are not interleaved with
  other calls on the connection: if the batch fails, at the begin, at a statement or at
  the commit, then the committed data is what it was before the call, a failure at
  statement k undoing statements 1..k-1, and no transaction is left open unless the
  rollback itself failed; if it succeeds, it began outside a transaction and has
  committed: the committed data is the data that its statements left pending. For any
  engine and any batch: when the \<open>try\<close> body fails, \<open>ROLLBACK\<close> is sent to the engine in
  the state the failure left, the error that \<open>batch\<close> rethrows is the one the \<open>try\<close>
  body raised, also when the rollback fails, and that failure of the rollback is logged
  at error level (at any configured log level that is not negative); the loop stops at the first failing statement, with that statement's
  error and no result list, whatever statements follow it; and on success the result
  list has one result per statement, in input order, each the result of executing that
  statement.
\<close>

theorem C1_batch_rolls_back_data_statements:
  assumes "db tad = Some (txn_engine E)"
    and "reads_control E"
    and "control_free E sts"
  shows
    "(batch lvl tad sts (t, out) = ((t', out'), Inl e) \<longrightarrow>
        committed t' = committed t
        \<and> (pending t' = None \<or> (\<exists>d re. pending t' = Some d \<and> sq_rollback_error E d = Some re)))
   \<and> (batch lvl tad sts (t, out) = ((t', out'), Inr rs') \<longrightarrow>
        pending t = None \<and> pending t' = None
        \<and> pending (fst (fst (batch_loop lvl tad sts []
                     (t\<lparr>pending := Some (committed t)\<rparr>,
                      logMessage lvl LInfo (BatchStart (length sts)) out))))
            = Some (committed t'))
   \<and> (batch_try lvl ad stmts (fst w, logMessage lvl LInfo (BatchStart (length stmts)) (snd w))
          = (w1, Inl e1) \<longrightarrow>
        snd (batch lvl ad stmts w) = Inl e1
        \<and> fst (fst (batch lvl ad stmts w)) = fst (call_exec (db ad) (JStr ''ROLLBACK'') (fst w1))
        \<and> (snd (call_exec (db ad) (JStr ''ROLLBACK'') (fst w1)) = Inl re \<and> 0 \<le> lvl \<longrightarrow>
             last (snd (fst (batch lvl ad stmts w))) = (LError, RollbackFailed re)))
   \<and> (batch_loop lvl ad pre [] w2 = (w3, Inr rs) \<and> batch_statement lvl ad bad w3 = (w4, Inl e2) \<longrightarrow>
        batch_loop lvl ad (pre @ bad # rest) [] w2 = (w4, Inl e2))
   \<and> (batch lvl ad stmts w = (w', Inr results) \<longrightarrow>
        list_all2 (\<lambda>st r. \<exists>wa wb. batch_statement lvl ad st wa = (wb, Inr r)) stmts results)"
proof -
  have atomic: "batch lvl tad sts (t, out) = ((t', out'), Inl e) \<longrightarrow>
      committed t' = committed t
      \<and> (pending t' = None \<or> (\<exists>d re. pending t' = Some d \<and> sq_rollback_error E d = Some re))"
    using batch_txn_failure [OF assms] by blast
  have commits: "batch lvl tad sts (t, out) = ((t', out'), Inr rs') \<longrightarrow>
      pending t = None \<and> pending t' = None
      \<and> pending (fst (fst (batch_loop lvl tad sts []
                   (t\<lparr>pending := Some (committed t)\<rparr>,
                    logMessage lvl LInfo (BatchStart (length sts)) out))))
          = Some (committed t')"
    using batch_txn_success [OF assms] by blast
  have rethrow: "batch_try lvl ad stmts (fst w, logMessage lvl LInfo (BatchStart (length stmts)) (snd w))
          = (w1, Inl e1) \<longrightarrow>
        snd (batch lvl ad stmts w) = Inl e1
        \<and> fst (fst (batch lvl ad stmts w)) = fst (call_exec (db ad) (JStr ''ROLLBACK'') (fst w1))
        \<and> (snd (call_exec (db ad) (JStr ''ROLLBACK'') (fst w1)) = Inl re \<and> 0 \<le> lvl \<longrightarrow>
             last (snd (fst (batch lvl ad stmts w))) = (LError, RollbackFailed re))"
    using batch_failure by blast
  have stops: "batch_loop lvl ad pre [] w2 = (w3, Inr rs) \<and> batch_statement lvl ad bad w3 = (w4, Inl e2) \<longrightarrow>
        batch_loop lvl ad (pre @ bad # rest) [] w2 = (w4, Inl e2)"
    using batch_loop_stops by blast
  have ordered: "batch lvl ad stmts w = (w', Inr results) \<longrightarrow>
        list_all2 (\<lambda>st r. \<exists>wa wb. batch_statement lvl ad st wa = (wb, Inr r)) stmts results"
    using batch_success batch_try_success_results by blast
  from atomic commits rethrow stops ordered show ?thesis by blast
qed

theorem C1_batch_rolls_back_data_statements_witness:
  "batch 2 toy_adapter scenario_batch (empty_db, [])
     = ((empty_db, [(LInfo, BatchStart 2), (LError, BatchRollback (JStr ''SQLITE_ERROR''))]),
        Inl (JStr ''SQLITE_ERROR''))
   \<and> batch 2 toy_adapter deferred_batch (empty_db, [])
     = ((empty_db, [(LInfo, BatchStart 1), (LError, BatchRollback (JStr ''SQLITE_CONSTRAINT''))]),
        Inl (JStr ''SQLITE_CONSTRAINT''))
   \<and> batch 2 toy_adapter four_shapes (empty_db, [])
     = ((\<lparr>committed = [JNum 1, JNum 2, JNum 1, JStr ''z''], pending = None\<rparr>, [(LInfo, BatchStart 4)]),
        Inr [JObj [(''success'', JBool True), (''result'', JUndefined)],
             JObj [(''success'', JBool True), (''result'', JObj [(''changes'', JNum 1)])],
             JObj [(''success'', JBool True), (''result'', JObj [(''changes'', JNum 1)])],
             JObj [(''success'', JBool True)]])"
proof -
  have h1: "db toy_adapter = Some (txn_engine toy_sqlite)"
    by (simp add: toy_adapter_def)
  have h2: "reads_control toy_sqlite"
    by (simp add: reads_control_def toy_sqlite_def toy_script_def toy_kind_def)
  have h3: "control_free toy_sqlite scenario_batch"
    by (simp add: control_free_def scenario_batch_def engine_texts_def toy_sqlite_def toy_kind_def)
  have h4: "control_free toy_sqlite deferred_batch"
    by (simp add: control_free_def deferred_batch_def engine_texts_def toy_sqlite_def toy_kind_def)
  have nr: "sq_rollback_error toy_sqlite d = None" for d
    by (simp add: toy_sqlite_def)
  obtain t1 out1 where b1: "fst (batch 2 toy_adapter scenario_batch (empty_db, [])) = (t1, out1)"
    by (metis surj_pair)
  have f1: "snd (batch 2 toy_adapter scenario_batch (empty_db, [])) = Inl (JStr ''SQLITE_ERROR'')"
    and o1: "snd (fst (batch 2 toy_adapter scenario_batch (empty_db, [])))
        = [(LInfo, BatchStart 2), (LError, BatchRollback (JStr ''SQLITE_ERROR''))]"
    by (simp_all add: batch_def batch_try_def batch_statement_def call_exec_def call_run_def
        toy_adapter_def txn_engine_def txn_call_def toy_sqlite_def toy_kind_def toy_script_def
        toy_apply_def empty_db_def logMessage_def success_result_def scenario_batch_def Let_def)
  from b1 f1 have e1: "batch 2 toy_adapter scenario_batch (empty_db, [])
      = ((t1, out1), Inl (JStr ''SQLITE_ERROR''))"
    by (metis prod.collapse)
  from C1_batch_rolls_back_data_statements [OF h1 h2 h3, where lvl = 2
      and t = empty_db and out = "[]" and t' = t1 and out' = out1 and e = "JStr ''SQLITE_ERROR''",
      THEN conjunct1]
    e1 nr
  have "committed t1 = committed empty_db \<and> pending t1 = None" by auto
  then have s1: "t1 = empty_db" by (simp add: empty_db_def)
  obtain t2 out2 where b2: "fst (batch 2 toy_adapter deferred_batch (empty_db, [])) = (t2, out2)"
    by (metis surj_pair)
  have f2: "snd (batch 2 toy_adapter deferred_batch (empty_db, [])) = Inl (JStr ''SQLITE_CONSTRAINT'')"
    and o2: "snd (fst (batch 2 toy_adapter deferred_batch (empty_db, [])))
        = [(LInfo, BatchStart 1), (LError, BatchRollback (JStr ''SQLITE_CONSTRAINT''))]"
    by (simp_all add: batch_def batch_try_def batch_statement_def call_exec_def call_run_def
        toy_adapter_def txn_engine_def txn_call_def toy_sqlite_def toy_kind_def toy_script_def
        toy_apply_def empty_db_def logMessage_def success_result_def deferred_batch_def Let_def)
  from b2 f2 have e2: "batch 2 toy_adapter deferred_batch (empty_db, [])
      = ((t2, out2), Inl (JStr ''SQLITE_CONSTRAINT''))"
    by (metis prod.collapse)
  from C1_batch_rolls_back_data_statements [OF h1 h2 h4, where lvl = 2
      and t = empty_db and out = "[]" and t' = t2 and out' = out2
      and e = "JStr ''SQLITE_CONSTRAINT''", THEN conjunct1]
    e2 nr
  have "committed t2 = committed empty_db \<and> pending t2 = None" by auto
  then have s2: "t2 = empty_db" by (simp add: empty_db_def)
  have four: "batch 2 toy_adapter four_shapes (empty_db, [])
     = ((\<lparr>committed = [JNum 1, JNum 2, JNum 1, JStr ''z''], pending = None\<rparr>, [(LInfo, BatchStart 4)]),
        Inr [JObj [(''success'', JBool True), (''result'', JUndefined)],
             JObj [(''success'', JBool True), (''result'', JObj [(''changes'', JNum 1)])],
             JObj [(''success'', JBool True), (''result'', JObj [(''changes'', JNum 1)])],
             JObj [(''success'', JBool True)]])"
    by (simp add: batch_def batch_try_def batch_statement_def call_exec_def call_run_def
        prepare_def bind_def run_def deref_def
        toy_adapter_def txn_engine_def txn_call_def toy_sqlite_def toy_kind_def toy_script_def
        toy_apply_def empty_db_def logMessage_def success_result_def four_shapes_def Let_def)
  from b1 s1 o1 f1 have r1: "batch 2 toy_adapter scenario_batch (empty_db, [])
     = ((empty_db, [(LInfo, BatchStart 2), (LError, BatchRollback (JStr ''SQLITE_ERROR''))]),
        Inl (JStr ''SQLITE_ERROR''))"
    by (metis prod.collapse snd_conv)
  from b2 s2 o2 f2 have r2: "batch 2 toy_adapter deferred_batch (empty_db, [])
     = ((empty_db, [(LInfo, BatchStart 1), (LError, BatchRollback (JStr ''SQLITE_CONSTRAINT''))]),
        Inl (JStr ''SQLITE_CONSTRAINT''))"
    by (metis prod.collapse snd_conv)
  from r1 r2 four show ?thesis by simp
qed


section \<open>Properties of createAdaptedRequest\<close>





lemma adapted_body_mkcol:
  assumes "req_method req = ''MKCOL''"
  shows "adapted_body rt req =
     (if truthy (req_body req) then Some (Value (JStr []))
      else if str_includes (header_or (header req ''content-type'') []) ''multipart/form-data''
           then multipart_body rt req else None)"
  using assms by (simp add: adapted_body_def body_methods_def Let_def)

lemma createAdaptedRequest_returns:
  "(\<exists>cr. createAdaptedRequest rt req = Inr cr) \<longleftrightarrow>
     (\<exists>url. new_URL rt (req_originalUrl req) (url_base req) = Inr url
          \<and> Request_rejects rt (request_init rt req url) = None)"
  by (auto simp: createAdaptedRequest_def split: sum.splits option.splits)

lemma createAdaptedRequest_result:
  assumes "createAdaptedRequest rt req = Inr cr"
  shows "cr_body cr = adapted_body rt req"
    and "cr_duplex cr = (if adapted_body rt req \<noteq> None then Some ''half'' else None)"
    and "cr_method cr = req_method req"
    and "cr_headers cr = req_headers req"
  using assms
  by (auto simp: createAdaptedRequest_def request_init_def Let_def split: sum.splits option.splits)

text \<open>
  C2: for every \<open>MKCOL\<close> request as the body parsers hand it on, with a truthy parsed
  body (the payload as a parser read it, or the empty object when the payload was
  empty, absent or of a type that no parser takes): the request built for the native
  application carries a body, that body is the empty string, never the payload, and
  the duplex flag is set, whatever the content type, the spooled file and the raw
  body. The request is built whenever the runtime accepts the URL and the request:
  \<open>createAdaptedRequest\<close> raises exactly when \<open>new URL\<close> or \<open>new Request\<close> does.
\<close>

theorem C2_mkcol_body_is_empty_string:
  assumes "req_method req = ''MKCOL''" and "truthy (req_body req)"
  shows "(createAdaptedRequest rt req = Inr cr \<longrightarrow>
            cr_method cr = ''MKCOL'' \<and> cr_body cr = Some (Value (JStr []))
            \<and> cr_duplex cr = Some ''half'')
       \<and> ((\<exists>built. createAdaptedRequest rt req = Inr built) \<longleftrightarrow>
            (\<exists>url. new_URL rt (req_originalUrl req) (url_base req) = Inr url
                 \<and> Request_rejects rt
                      \<lparr>cr_url = url, cr_method = ''MKCOL'', cr_headers = req_headers req,
                       cr_body = Some (Value (JStr [])), cr_duplex = Some ''half''\<rparr> = None))"
proof -
  from assms have b: "adapted_body rt req = Some (Value (JStr []))"
    by (simp add: adapted_body_mkcol)
  then have i: "request_init rt req url =
      \<lparr>cr_url = url, cr_method = ''MKCOL'', cr_headers = req_headers req,
       cr_body = Some (Value (JStr [])), cr_duplex = Some ''half''\<rparr>" for url
    using assms(1) by (simp add: request_init_def)
  have "createAdaptedRequest rt req = Inr cr \<longrightarrow>
      cr_method cr = ''MKCOL'' \<and> cr_body cr = Some (Value (JStr [])) \<and> cr_duplex cr = Some ''half''"
    using createAdaptedRequest_result [of rt req cr] b assms(1) by simp
  moreover have "(\<exists>built. createAdaptedRequest rt req = Inr built) \<longleftrightarrow>
      (\<exists>url. new_URL rt (req_originalUrl req) (url_base req) = Inr url
           \<and> Request_rejects rt
                \<lparr>cr_url = url, cr_method = ''MKCOL'', cr_headers = req_headers req,
                 cr_body = Some (Value (JStr [])), cr_duplex = Some ''half''\<rparr> = None)"
    using createAdaptedRequest_returns [of rt req] by (simp add: i)
  ultimately show ?thesis by blast
qed

theorem C2_mkcol_body_is_empty_string_witness:
  "createAdaptedRequest plain_runtime (dav_request ''MKCOL'' (JBuffer (replicate 2000 65)))
     = Inr \<lparr>cr_url = ''http://example.org/dav/new-folder'', cr_method = ''MKCOL'',
            cr_headers = [(''host'', ''example.org'')],
            cr_body = Some (Value (JStr [])), cr_duplex = Some ''half''\<rparr>
   \<and> createAdaptedRequest plain_runtime (dav_request ''MKCOL'' (JObj []))
     = Inr \<lparr>cr_url = ''http://example.org/dav/new-folder'', cr_method = ''MKCOL'',
            cr_headers = [(''host'', ''example.org'')],
            cr_body = Some (Value (JStr [])), cr_duplex = Some ''half''\<rparr>"
proof -
  have m: "req_method (dav_request ''MKCOL'' b) = ''MKCOL''" for b
    by (simp add: dav_request_def)
  have t1: "truthy (req_body (dav_request ''MKCOL'' (JBuffer (replicate 2000 65))))"
    and t2: "truthy (req_body (dav_request ''MKCOL'' (JObj [])))"
    by (simp_all add: dav_request_def)
  have u: "new_URL plain_runtime (req_originalUrl (dav_request ''MKCOL'' b))
        (url_base (dav_request ''MKCOL'' b)) = Inr ''http://example.org/dav/new-folder''" for b
    by (simp add: plain_runtime_def dav_request_def url_base_def header_def header_or_def)
  have a: "Request_rejects plain_runtime init = None" for init
    by (simp add: plain_runtime_def)
  have h: "req_headers (dav_request ''MKCOL'' b) = [(''host'', ''example.org'')]" for b
    by (simp add: dav_request_def)
  have r: "createAdaptedRequest plain_runtime (dav_request ''MKCOL'' b)
      = Inr \<lparr>cr_url = ''http://example.org/dav/new-folder'', cr_method = ''MKCOL'',
             cr_headers = [(''host'', ''example.org'')],
             cr_body = Some (Value (JStr [])), cr_duplex = Some ''half''\<rparr>"
    if t: "truthy (req_body (dav_request ''MKCOL'' b))" for b
  proof -
    note c2 = C2_mkcol_body_is_empty_string [OF m t, of plain_runtime]
    from c2 [THEN conjunct2] u a obtain built where
      b: "createAdaptedRequest plain_runtime (dav_request ''MKCOL'' b) = Inr built"
      by blast
    from c2 [of built, THEN conjunct1] b have f: "cr_method built = ''MKCOL''"
      "cr_body built = Some (Value (JStr []))" "cr_duplex built = Some ''half''"
      by simp_all
    from b u have "cr_url built = ''http://example.org/dav/new-folder''"
      by (auto simp: createAdaptedRequest_def request_init_def Let_def split: option.splits)
    moreover from createAdaptedRequest_result(4) [OF b] have "cr_headers built = [(''host'', ''example.org'')]"
      by (simp add: h)
    ultimately have "built = \<lparr>cr_url = ''http://example.org/dav/new-folder'', cr_method = ''MKCOL'',
             cr_headers = [(''host'', ''example.org'')],
             cr_body = Some (Value (JStr [])), cr_duplex = Some ''half''\<rparr>"
      using f by (cases built) simp
    with b show ?thesis by simp
  qed
  from r [OF t1] r [OF t2] show ?thesis by simp
qed




section \<open>Properties of the error response\<close>

lemma select_status_cases:
  "select_status ie s = (case s of JNum n \<Rightarrow> if n = 0 then ie else n | _ \<Rightarrow> ie)"
  by (cases s) (simp_all add: select_status_def)

lemma sanitized_message_string:
  "typeof m = TString \<or> \<not> truthy m \<Longrightarrow> \<exists>t. sanitized_message m d = Inr t"
  by (cases m) (auto simp: sanitized_message_def)

lemma logged_stack_string:
  "typeof st = TString \<or> \<not> truthy st \<Longrightarrow> \<exists>t. logged_stack st = Inr t"
  by (cases st) (auto simp: logged_stack_def)

lemma createErrorResponse_body:
  assumes "get_prop error ''message'' = Inr m" and "typeof m = TString \<or> \<not> truthy m"
    and "get_prop error ''stack'' = Inr st" and "typeof st = TString \<or> \<not> truthy st"
  shows "\<exists>out'. createErrorResponse lvl now r36 error status d out =
           Inr (out', JObj [(''code'', JNum status), (''message'', JStr d),
                            (''errorId'', JStr (make_errorId now r36)),
                            (''success'', JBool False), (''data'', JNull)])"
proof -
  from sanitized_message_string [OF assms(2)] obtain t where t: "sanitized_message m d = Inr t" ..
  from logged_stack_string [OF assms(4)] obtain u where u: "logged_stack st = Inr u" ..
  from assms(1,3) t u show ?thesis
    by (simp add: createErrorResponse_def Let_def)
qed

lemma to_int32_small: "- 2147483648 \<le> n \<Longrightarrow> n < 2147483648 \<Longrightarrow> to_int32 n = n"
  by (simp add: to_int32_def)

lemma res_json_body:
  assumes "\<not> res_ended res" and "200 \<le> res_statusCode res" and "res_statusCode res \<le> 999"
    and "res_statusCode res \<notin> {204, 205, 304}"
    and "req_method req \<noteq> ''HEAD''"
    and "req_method req = ''GET'' \<longrightarrow> 300 \<le> res_statusCode res"
  shows "res_json fresh req v res = Inr (res\<lparr>res_body := JsonBody v, res_ended := True\<rparr>)"
proof -
  from assms(2,3) have c: "to_int32 (res_statusCode res) = res_statusCode res"
    by (simp add: to_int32_small)
  from assms(4,5,6) have k: "\<not> ((req_method req = ''GET'' \<or> req_method req = ''HEAD'')
      \<and> ((200 \<le> res_statusCode res \<and> res_statusCode res < 300) \<or> res_statusCode res = 304)
      \<and> fresh req res)"
    by auto
  from assms(1-5) c show ?thesis
    unfolding res_json_def Let_def if_not_P [OF k]
    by (simp add: write_head_def Let_def)
qed

text \<open>
  C8 (as stated, refuted): an error whose status is the number 0 is answered with the
  default status, not with its own. A rejection without a reason (the thrown value is
  \<open>undefined\<close>) makes the \<open>catch\<close> block itself raise a TypeError when it reads
  \<open>error.status\<close>, and so does an error whose \<open>message\<close> is a truthy value that is not
  a string, inside \<open>createErrorResponse\<close>; an error whose status is the number 99
  makes the framework raise a RangeError when it writes the head. In these three cases
  the exception leaves the \<open>catch\<close> block and no response is sent.
\<close>

theorem C8_status_zero_and_message_counterexample:
  "typeof (JNum 0) = TNumber
   \<and> map_sum id res_statusCode
        (snd (dispatch_catch 2 500 46655 ''0.4fzyo82mvyr'' never_fresh plain_get
                (JObj [(''status'', JNum 0)]) ([], new_response)))
       = Inr 500
   \<and> snd (dispatch_catch 2 500 46655 ''0.4fzyo82mvyr'' never_fresh plain_get JUndefined
             ([], new_response))
       = Inl (TypeError ''Cannot read properties of undefined'')
   \<and> snd (dispatch_catch 2 500 46655 ''0.4fzyo82mvyr'' never_fresh plain_get
             (JObj [(''message'', JNum 42)]) ([], new_response))
       = Inl (TypeError ''error.message.replace is not a function'')
   \<and> snd (dispatch_catch 2 500 46655 ''0.4fzyo82mvyr'' never_fresh plain_get
             (JObj [(''status'', JNum 99)]) ([], new_response))
       = Inl (RangeError ''ERR_HTTP_INVALID_STATUS_CODE'')"
  by (simp add: dispatch_catch_def createErrorResponse_def select_status_def sanitized_message_def
      logged_stack_def new_response_def res_json_def write_head_def to_int32_def never_fresh_def
      plain_get_def Let_def)

text \<open>
  C8 (amended): for every exception raised during dispatch that is neither \<open>null\<close> nor
  \<open>undefined\<close> and whose \<open>message\<close> and \<open>stack\<close> are strings or falsy, the status
  chosen is the error's own when that is a number other than 0 and NaN, and the default
  server-error status otherwise. When the framework sends a body with that status to
  that request (the status lies between 200 and 999 and is none of 204, 205 and 304,
  the request is no \<open>HEAD\<close>, and no \<open>GET\<close> if the status is below 300) and no response
  has been sent yet, the wildcard route answers with that status and the object that
  holds the status as code, the fixed generic message, the generated error identifier,
  \<open>success: false\<close> and \<open>data: null\<close>, and nothing of the error's message or stack.
\<close>

theorem C8_dispatch_error_converted:
  assumes "dispatch req res0 = Inl (error, res)" and "\<not> res_ended res"
    and "get_prop error ''status'' = Inr s"
    and "get_prop error ''message'' = Inr m" and "typeof m = TString \<or> \<not> truthy m"
    and "get_prop error ''stack'' = Inr st" and "typeof st = TString \<or> \<not> truthy st"
    and "status = (case s of JNum n \<Rightarrow> if n = 0 then INTERNAL_ERROR else n | _ \<Rightarrow> INTERNAL_ERROR)"
    and "200 \<le> status" and "status \<le> 999" and "status \<notin> {204, 205, 304}"
    and "req_method req \<noteq> ''HEAD''" and "req_method req = ''GET'' \<longrightarrow> 300 \<le> status"
  shows "\<exists>out'. wildcardRoute lvl INTERNAL_ERROR now random36 fresh dispatch req (out, res0) =
           (out', Inr (res\<lparr>res_statusCode := status,
                           res_body := JsonBody (JObj [(''code'', JNum status),
                                                       (''message'', JStr defaultMessage),
                                                       (''errorId'', JStr (make_errorId now random36)),
                                                       (''success'', JBool False),
                                                       (''data'', JNull)]),
                           res_ended := True\<rparr>))"
proof -
  have st: "select_status INTERNAL_ERROR s = status"
    using assms(8) by (simp add: select_status_cases)
  from createErrorResponse_body [OF assms(4-7), of lvl now random36 status defaultMessage out]
  obtain out' where c: "createErrorResponse lvl now random36 error status defaultMessage out =
      Inr (out', JObj [(''code'', JNum status), (''message'', JStr defaultMessage),
                       (''errorId'', JStr (make_errorId now random36)),
                       (''success'', JBool False), (''data'', JNull)])" ..
  have "res_json fresh req v (res\<lparr>res_statusCode := status\<rparr>)
      = Inr (res\<lparr>res_statusCode := status, res_body := JsonBody v, res_ended := True\<rparr>)" for v
    using res_json_body [of "res\<lparr>res_statusCode := status\<rparr>" req fresh v] assms(2,9-13) by simp
  with assms(1,3) st c show ?thesis
    by (simp add: wildcardRoute_def dispatch_catch_def Let_def)
qed

theorem C8_dispatch_error_converted_witness:
  "wildcardRoute 2 500 46655 ''0.4fzyo82mvyr'' never_fresh
     (\<lambda>req res. Inl (JObj [(''status'', JNum 404), (''message'', JStr ''token expired'')], res))
     plain_get ([], new_response)
   = ([(LError, ServerError ''zzz4fzyo'' 404 ''***** expired'' JNull)],
      Inr (new_response\<lparr>res_statusCode := 404,
             res_body := JsonBody (JObj [(''code'', JNum 404), (''message'', JStr defaultMessage),
                                         (''errorId'', JStr ''zzz4fzyo''),
                                         (''success'', JBool False), (''data'', JNull)]),
             res_ended := True\<rparr>))"
proof -
  let ?e = "JObj [(''status'', JNum 404), (''message'', JStr ''token expired'')]"
  let ?d = "\<lambda>(req::express_req) (res::express_res). (Inl (?e, res) :: (jsval \<times> express_res) + express_res)"
  have a1: "?d plain_get new_response = Inl (?e, new_response)" by simp
  have a2: "\<not> res_ended new_response" by (simp add: new_response_def)
  have a3: "get_prop ?e ''status'' = Inr (JNum 404)" by simp
  have a4: "get_prop ?e ''message'' = Inr (JStr ''token expired'')" by simp
  have a5: "typeof (JStr ''token expired'') = TString \<or> \<not> truthy (JStr ''token expired'')" by simp
  have a6: "get_prop ?e ''stack'' = Inr JUndefined" by simp
  have a7: "typeof JUndefined = TString \<or> \<not> truthy JUndefined" by simp
  have a8: "(404::int) = (case JNum 404 of JNum n \<Rightarrow> if n = 0 then 500 else n | _ \<Rightarrow> 500)" by simp
  have a9: "(200::int) \<le> 404" "(404::int) \<le> 999" "(404::int) \<notin> {204, 205, 304}" by simp_all
  have a10: "req_method plain_get \<noteq> ''HEAD''" "req_method plain_get = ''GET'' \<longrightarrow> (300::int) \<le> 404"
    by (simp_all add: plain_get_def)
  have id: "make_errorId 46655 ''0.4fzyo82mvyr'' = ''zzz4fzyo''"
    by (simp add: make_errorId_def digit_char_def toString_radix.simps)
  have lg: "fst (wildcardRoute 2 500 46655 ''0.4fzyo82mvyr'' never_fresh ?d plain_get ([], new_response))
      = [(LError, ServerError ''zzz4fzyo'' 404 ''***** expired'' JNull)]"
    by (simp add: wildcardRoute_def dispatch_catch_def createErrorResponse_def select_status_def
        sanitized_message_def logged_stack_def logMessage_def id sensitive_words_def
        matches_at_def lower_char_def Let_def split: prod.splits sum.splits)
  from C8_dispatch_error_converted [where dispatch = ?d and req = plain_get
      and ?res0.0 = new_response and error = ?e and res = new_response and lvl = 2
      and now = 46655 and ?random36.0 = "''0.4fzyo82mvyr''" and out = "[]" and status = 404
      and fresh = never_fresh,
      OF a1 a2 a3 a4 a5 a6 a7 a8 a9 a10]
  obtain out' where "wildcardRoute 2 500 46655 ''0.4fzyo82mvyr'' never_fresh ?d plain_get ([], new_response)
      = (out', Inr (new_response\<lparr>res_statusCode := 404,
             res_body := JsonBody (JObj [(''code'', JNum 404), (''message'', JStr defaultMessage),
                                         (''errorId'', JStr ''zzz4fzyo''),
                                         (''success'', JBool False), (''data'', JNull)]),
             res_ended := True\<rparr>))"
    by (auto simp: id)
  with lg show ?thesis by simp
qed


section \<open>Properties of the preflight handling\<close>

lemma getHeader_setHeader:
  "getHeader (setHeader k v res) k' = (if k' = k then Some v else getHeader res k')"
  by (simp add: getHeader_def setHeader_def update_conv')

lemma setHeader_keeps [simp]:
  "res_statusCode (setHeader k v res) = res_statusCode res"
  "res_body (setHeader k v res) = res_body res"
  "res_ended (setHeader k v res) = res_ended res"
  by (simp_all add: setHeader_def)

lemma getHeader_fields [simp]:
  "getHeader (res\<lparr>res_statusCode := c\<rparr>) k = getHeader res k"
  "getHeader (res\<lparr>res_ended := e\<rparr>) k = getHeader res k"
  "getHeader (res\<lparr>res_body := b\<rparr>) k = getHeader res k"
  by (simp_all add: getHeader_def)

lemma exposed_headers_keeps [simp]:
  "res_statusCode (exposed_headers cfg res) = res_statusCode res"
  "res_body (exposed_headers cfg res) = res_body res"
  "res_ended (exposed_headers cfg res) = res_ended res"
  "getHeader (exposed_headers cfg res) ''Access-Control-Allow-Methods''
     = getHeader res ''Access-Control-Allow-Methods''"
  by (simp_all add: exposed_headers_def getHeader_setHeader)

lemma allowed_headers_keeps [simp]:
  "res_statusCode (allowed_headers req res) = res_statusCode res"
  "res_body (allowed_headers req res) = res_body res"
  "res_ended (allowed_headers req res) = res_ended res"
  "getHeader (allowed_headers req res) ''Access-Control-Allow-Methods''
     = getHeader res ''Access-Control-Allow-Methods''"
  by (simp_all add: allowed_headers_def getHeader_setHeader split: option.splits)

lemma end_response_204:
  assumes "\<not> res_ended res"
  shows "end_response (res\<lparr>res_statusCode := 204\<rparr>)
     = Answered (res\<lparr>res_statusCode := 204, res_ended := True\<rparr>)"
  using assms by (simp add: end_response_def res_end_def write_head_def to_int32_def)

lemma methodOverride_other:
  "originalMethod \<noteq> ''POST'' \<Longrightarrow> methodOverride name ms originalMethod req = req"
  by (simp add: methodOverride_def)

text \<open>
  C6 (as stated, refuted): the claim has the \<open>Allow\<close>, \<open>DAV\<close> and \<open>MS-Author-Via\<close>
  headers of every preflight answer under \<open>/dav\<close> equal the configured verb set. With an
  origin configured, the \<open>cors\<close> middleware answers the \<open>OPTIONS\<close> request before the
  namespace middleware runs: the answer has status 204 and the CORS headers, and none
  of the three headers. With no origin configured the namespace middleware answers, and
  \<open>DAV\<close> and \<open>MS-Author-Via\<close> are the protocol's response headers of the configuration,
  which are not the verb set.
\<close>

theorem C6_dav_header_counterexample:
  "baseMiddleware sample_config sample_METHODS (dav_request ''OPTIONS'' JUndefined) new_response
     = Answered cors_answer
   \<and> getHeader cors_answer ''Allow'' = None
   \<and> getHeader cors_answer ''DAV'' = None
   \<and> getHeader cors_answer ''MS-Author-Via'' = None
   \<and> join_with '','' (SUPPORTED_METHODS sample_config) = ''OPTIONS,PROPFIND,MKCOL,PUT''
   \<and> baseMiddleware closed_config sample_METHODS (dav_request ''OPTIONS'' JUndefined) new_response
     = Answered dav_answer
   \<and> getHeader dav_answer ''DAV'' = Some ''1,2''
   \<and> getHeader dav_answer ''MS-Author-Via'' = Some ''DAV''
   \<and> join_with '','' (SUPPORTED_METHODS closed_config) = ''OPTIONS,PROPFIND,MKCOL,PUT''"
  by (simp add: baseMiddleware_def corsMiddleware_def davMiddleware_def methodOverride_def
      sample_config_def closed_config_def dav_request_def startsWith_def
      new_response_def setHeader_def getHeader_def exposed_headers_def allowed_headers_def
      header_def end_response_def res_end_def write_head_def to_int32_def cors_answer_def
      dav_answer_def Let_def)

text \<open>
  C6 (amended): every \<open>OPTIONS\<close> request under \<open>/dav\<close> is answered at once, with status
  204 and no body, without being passed on to the handlers behind, and the
  \<open>Access-Control-Allow-Methods\<close> header of the answer is the configured verb set,
  joined by commas. When no CORS origin is configured the answer comes from the
  namespace middleware, and then \<open>Allow\<close> is the configured verb set as well and \<open>DAV\<close>
  and \<open>MS-Author-Via\<close> are the configured protocol response headers.
\<close>

theorem C6_preflight_answered:
  assumes "startsWith (req_path req) ''/dav''" and "req_method req = ''OPTIONS''"
    and "\<not> res_ended res"
  shows "\<exists>res'. baseMiddleware cfg http_METHODS req res = Answered res'
     \<and> res_statusCode res' = 204 \<and> res_ended res' \<and> res_body res' = res_body res
     \<and> getHeader res' ''Access-Control-Allow-Methods'' = Some (join_with '','' (SUPPORTED_METHODS cfg))
     \<and> (CORS_ALLOW_ORIGIN cfg = [] \<longrightarrow>
          getHeader res' ''Allow'' = Some (join_with '','' (SUPPORTED_METHODS cfg))
          \<and> getHeader res' ''DAV'' = Some (RESPONSE_HEADERS_DAV cfg)
          \<and> getHeader res' ''MS-Author-Via'' = Some (RESPONSE_HEADERS_MS_Author_Via cfg))"
proof (cases "CORS_ALLOW_ORIGIN cfg = []")
  case True
  let ?verbs = "join_with '','' (SUPPORTED_METHODS cfg)"
  let ?r = "setHeader ''MS-Author-Via'' (RESPONSE_HEADERS_MS_Author_Via cfg)
              (setHeader ''DAV'' (RESPONSE_HEADERS_DAV cfg)
                (setHeader ''Allow'' ?verbs
                  (setHeader ''Access-Control-Allow-Methods'' ?verbs res)))"
  from assms(2) have o: "req_method req \<noteq> ''POST''" by simp
  have "baseMiddleware cfg http_METHODS req res = davMiddleware cfg req res"
    using True o by (simp add: baseMiddleware_def corsMiddleware_def methodOverride_other Let_def)
  also have "\<dots> = end_response (?r\<lparr>res_statusCode := 204\<rparr>)"
    using assms(1,2) by (simp add: davMiddleware_def Let_def)
  also have "\<dots> = Answered (?r\<lparr>res_statusCode := 204, res_ended := True\<rparr>)"
    using assms(3) by (simp add: end_response_204)
  finally show ?thesis using True by (simp add: getHeader_setHeader)
next
  case False
  let ?verbs = "join_with '','' (SUPPORTED_METHODS cfg)"
  let ?r = "setHeader ''Content-Length'' ''0''
              (exposed_headers cfg
                (setHeader ''Access-Control-Max-Age'' ''86400''
                  (allowed_headers req
                    (setHeader ''Access-Control-Allow-Methods'' ?verbs
                      (setHeader ''Access-Control-Allow-Credentials'' ''true''
                        (setHeader ''Access-Control-Allow-Origin'' (CORS_ALLOW_ORIGIN cfg) res))))))"
  have "corsMiddleware cfg req res = end_response (?r\<lparr>res_statusCode := 204\<rparr>)"
    using False assms(2) by (simp add: corsMiddleware_def Let_def)
  also have "\<dots> = Answered (?r\<lparr>res_statusCode := 204, res_ended := True\<rparr>)"
    using assms(3) by (simp add: end_response_204)
  finally have "baseMiddleware cfg http_METHODS req res
      = Answered (?r\<lparr>res_statusCode := 204, res_ended := True\<rparr>)"
    by (simp add: baseMiddleware_def)
  then show ?thesis using False by (simp add: getHeader_setHeader)
qed

theorem C6_preflight_answered_witness:
  "(\<exists>res'. baseMiddleware sample_config sample_METHODS (dav_request ''OPTIONS'' JUndefined) new_response
             = Answered res'
        \<and> res_statusCode res' = 204 \<and> res_ended res' \<and> res_body res' = NoBody
        \<and> getHeader res' ''Access-Control-Allow-Methods'' = Some ''OPTIONS,PROPFIND,MKCOL,PUT'')
   \<and> (\<exists>res'. baseMiddleware closed_config sample_METHODS (dav_request ''OPTIONS'' JUndefined) new_response
             = Answered res'
        \<and> res_statusCode res' = 204 \<and> res_ended res' \<and> res_body res' = NoBody
        \<and> getHeader res' ''Access-Control-Allow-Methods'' = Some ''OPTIONS,PROPFIND,MKCOL,PUT''
        \<and> getHeader res' ''Allow'' = Some ''OPTIONS,PROPFIND,MKCOL,PUT''
        \<and> getHeader res' ''DAV'' = Some ''1,2''
        \<and> getHeader res' ''MS-Author-Via'' = Some ''DAV'')"
proof -
  have a: "startsWith (req_path (dav_request ''OPTIONS'' JUndefined)) ''/dav''"
    by (simp add: dav_request_def startsWith_def)
  have b: "req_method (dav_request ''OPTIONS'' JUndefined) = ''OPTIONS''"
    by (simp add: dav_request_def)
  have c: "\<not> res_ended new_response" by (simp add: new_response_def)
  have v: "join_with '','' (SUPPORTED_METHODS sample_config) = ''OPTIONS,PROPFIND,MKCOL,PUT''"
    "join_with '','' (SUPPORTED_METHODS closed_config) = ''OPTIONS,PROPFIND,MKCOL,PUT''"
    by (simp_all add: sample_config_def closed_config_def)
  have n: "res_body new_response = NoBody" by (simp add: new_response_def)
  have k: "CORS_ALLOW_ORIGIN closed_config = []" "RESPONSE_HEADERS_DAV closed_config = ''1,2''"
    "RESPONSE_HEADERS_MS_Author_Via closed_config = ''DAV''"
    by (simp_all add: sample_config_def closed_config_def)
  from C6_preflight_answered [OF a b c, of sample_config sample_METHODS]
  have "\<exists>res'. baseMiddleware sample_config sample_METHODS (dav_request ''OPTIONS'' JUndefined) new_response
             = Answered res'
        \<and> res_statusCode res' = 204 \<and> res_ended res' \<and> res_body res' = NoBody
        \<and> getHeader res' ''Access-Control-Allow-Methods'' = Some ''OPTIONS,PROPFIND,MKCOL,PUT''"
    unfolding v n by blast
  moreover from C6_preflight_answered [OF a b c, of closed_config sample_METHODS]
  have "\<exists>res'. baseMiddleware closed_config sample_METHODS (dav_request ''OPTIONS'' JUndefined) new_response
             = Answered res'
        \<and> res_statusCode res' = 204 \<and> res_ended res' \<and> res_body res' = NoBody
        \<and> getHeader res' ''Access-Control-Allow-Methods'' = Some ''OPTIONS,PROPFIND,MKCOL,PUT''
        \<and> getHeader res' ''Allow'' = Some ''OPTIONS,PROPFIND,MKCOL,PUT''
        \<and> getHeader res' ''DAV'' = Some ''1,2''
        \<and> getHeader res' ''MS-Author-Via'' = Some ''DAV''"
    unfolding v k n by blast
  ultimately show ?thesis by blast
qed


section \<open>Properties of the multipart spooling middleware\<close>

lemma digits_distinct: "distinct ''0123456789abcdefghijklmnopqrstuvwxyz''"
  by simp

lemma digit_char_inj:
  assumes "a < 36" and "b < 36" and "digit_char a = digit_char b"
  shows "a = b"
proof -
  have "length ''0123456789abcdefghijklmnopqrstuvwxyz'' = 36" by simp
  with assms digits_distinct show ?thesis
    unfolding digit_char_def by (metis mod_less nth_eq_iff_index_eq)
qed

lemma hex_byte_inj:
  assumes "a < 256" and "b < 256" and "hex_byte a = hex_byte b"
  shows "a = b"
proof -
  from assms(1,2) have r: "a div 16 mod 16 < 36" "b div 16 mod 16 < 36" "a mod 16 < 36" "b mod 16 < 36"
    by simp_all
  from assms(3) have "digit_char (a div 16 mod 16) = digit_char (b div 16 mod 16)"
    and "digit_char (a mod 16) = digit_char (b mod 16)"
    by (simp_all add: hex_byte_def)
  with r have "a div 16 mod 16 = b div 16 mod 16" and m: "a mod 16 = b mod 16"
    by (blast intro: digit_char_inj)+
  moreover from assms(1,2) have "a div 16 mod 16 = a div 16" "b div 16 mod 16 = b div 16"
    by simp_all
  ultimately have "a div 16 = b div 16" by simp
  with m show ?thesis by (metis div_mult_mod_eq)
qed

lemma toString_hex_inj:
  assumes "\<forall>b \<in> set xs. b < 256" and "\<forall>b \<in> set ys. b < 256"
    and "toString_hex xs = toString_hex ys"
  shows "xs = ys"
  using assms
proof (induction xs arbitrary: ys)
  case Nil
  then show ?case by (cases ys) (simp_all add: toString_hex_def hex_byte_def)
next
  case (Cons x xs)
  show ?case
  proof (cases ys)
    case Nil
    with Cons.prems(3) show ?thesis by (simp add: toString_hex_def hex_byte_def)
  next
    case (Cons y ys')
    with Cons.prems(3) have h: "hex_byte x = hex_byte y" and t: "toString_hex xs = toString_hex ys'"
      by (simp_all add: toString_hex_def hex_byte_def)
    from Cons.prems(1,2) Cons have "x < 256" "y < 256" by simp_all
    with h have "x = y" by (simp add: hex_byte_inj)
    moreover have "xs = ys'"
      by (rule Cons.IH) (use Cons.prems(1,2) Cons t in simp_all)
    ultimately show ?thesis using Cons by simp
  qed
qed

lemma temp_path_inj:
  assumes "\<forall>b \<in> set xs. b < 256" and "\<forall>b \<in> set ys. b < 256"
    and "path_join dir (tempFileName xs) = path_join dir (tempFileName ys)"
  shows "xs = ys"
proof -
  from assms(3) have "toString_hex xs = toString_hex ys"
    by (simp add: path_join_def tempFileName_def)
  with assms(1,2) show ?thesis by (rule toString_hex_inj)
qed

lemma multipartMiddleware_spools:
  assumes "req_method req = ''POST''" and "header req ''content-type'' = Some ct"
    and "str_includes ct ''multipart/form-data''"
  shows "multipartMiddleware lvl tmpdir randomBytes req files out =
     \<lparr>sp_req = req\<lparr>req_tempFilePath := JStr (path_join tmpdir (tempFileName randomBytes))\<rparr>,
      sp_path = Some (path_join tmpdir (tempFileName randomBytes)),
      sp_files = files,
      sp_stream_open = True,
      sp_stream_fd = False,
      sp_stream_buffer = [],
      sp_console = logMessage lvl LDebug (MultipartDetected (req_path req)) out,
      sp_next = [],
      sp_unlinks = []\<rparr>"
proof -
  from assms(3) have "ct \<noteq> []" by (rule str_includes_nonempty) simp
  with assms show ?thesis by (simp add: multipartMiddleware_def Let_def)
qed

lemma multipartMiddleware_passes:
  assumes "req_method req \<noteq> ''POST'' \<or> header req ''content-type'' = None
           \<or> (header req ''content-type'' = Some ct \<and> \<not> str_includes ct ''multipart/form-data'')"
  shows "multipartMiddleware lvl tmpdir randomBytes req files out =
     \<lparr>sp_req = req, sp_path = None, sp_files = files, sp_stream_open = False,
      sp_stream_fd = False, sp_stream_buffer = [],
      sp_console = out, sp_next = [None], sp_unlinks = []\<rparr>"
  using assms by (auto simp: multipartMiddleware_def)

lemma multipartMiddleware_path:
  assumes "sp_path (multipartMiddleware lvl tmpdir randomBytes req files out) = Some p"
  shows "p = path_join tmpdir (tempFileName randomBytes)"
    and "req_tempFilePath (sp_req (multipartMiddleware lvl tmpdir randomBytes req files out)) = JStr p"
    and "sp_unlinks (multipartMiddleware lvl tmpdir randomBytes req files out) = []"
  using assms by (auto simp: multipartMiddleware_def Let_def split: if_splits)

lemma handle_events_append:
  "handle_events lvl (xs @ ys) st = handle_events lvl ys (handle_events lvl xs st)"
  by (induction xs arbitrary: st) simp_all

lemma handle_events_unregistered:
  "sp_path st = None \<Longrightarrow> handle_events lvl evs st = st"
  by (induction evs) (simp_all add: handle_event_def)

text \<open>The chunks of the request body on their way into the file.\<close>

lemma chunks_buffered:
  assumes "sp_path st = Some p" and "sp_stream_open st" and "\<not> sp_stream_fd st"
  shows "handle_events lvl (map ReqData cs) st
     = st\<lparr>sp_stream_buffer := sp_stream_buffer st @ concat cs\<rparr>"
  using assms
proof (induction cs arbitrary: st)
  case Nil
  then show ?case by simp
next
  case (Cons c cs)
  let ?st = "st\<lparr>sp_stream_buffer := sp_stream_buffer st @ c\<rparr>"
  from Cons.prems have "handle_event lvl (ReqData c) st = ?st"
    by (simp add: handle_event_def on_req_data_def)
  moreover have "handle_events lvl (map ReqData cs) ?st
      = ?st\<lparr>sp_stream_buffer := sp_stream_buffer ?st @ concat cs\<rparr>"
    by (rule Cons.IH) (use Cons.prems in simp_all)
  ultimately show ?case by simp
qed

lemma chunks_written:
  assumes "sp_path st = Some p" and "sp_stream_open st" and "sp_stream_fd st"
    and "sp_files st p = Some w"
  shows "handle_events lvl (map ReqData cs) st
     = st\<lparr>sp_files := (sp_files st)(p \<mapsto> w @ concat cs)\<rparr>"
  using assms
proof (induction cs arbitrary: st w)
  case Nil
  then have "(sp_files st)(p \<mapsto> w) = sp_files st" by (simp add: fun_upd_idem)
  then show ?case by simp
next
  case (Cons c cs)
  let ?st = "st\<lparr>sp_files := (sp_files st)(p \<mapsto> w @ c)\<rparr>"
  from Cons.prems have s: "handle_event lvl (ReqData c) st = ?st"
    by (simp add: handle_event_def on_req_data_def)
  have "handle_events lvl (map ReqData (c # cs)) st = handle_events lvl (map ReqData cs) ?st"
    unfolding list.map handle_events.simps s ..
  also have "\<dots> = ?st\<lparr>sp_files := (sp_files ?st)(p \<mapsto> (w @ c) @ concat cs)\<rparr>"
    by (rule Cons.IH) (use Cons.prems in simp_all)
  also have "\<dots> = st\<lparr>sp_files := (sp_files st)(p \<mapsto> w @ concat (c # cs))\<rparr>"
    by simp
  finally show ?case .
qed

lemma piped:
  assumes "sp_path st = Some p" and "sp_stream_open st" and "\<not> sp_stream_fd st"
    and "sp_stream_buffer st = []"
  shows "handle_events lvl (map ReqData cs1 @ FileStreamOpen # map ReqData cs2) st
     = st\<lparr>sp_files := (sp_files st)(p \<mapsto> concat (cs1 @ cs2)), sp_stream_fd := True\<rparr>"
proof -
  let ?a = "st\<lparr>sp_stream_buffer := concat cs1\<rparr>"
  let ?b = "st\<lparr>sp_files := (sp_files st)(p \<mapsto> concat cs1), sp_stream_fd := True\<rparr>"
  have a: "handle_events lvl (map ReqData cs1) st = ?a"
    using chunks_buffered [OF assms(1-3), of lvl cs1] assms(4) by simp
  have b: "handle_event lvl FileStreamOpen ?a = ?b"
    using assms(1,4) by (simp add: handle_event_def on_fileStream_open_def)
  have c: "handle_events lvl (map ReqData cs2) ?b
      = ?b\<lparr>sp_files := (sp_files ?b)(p \<mapsto> concat cs1 @ concat cs2)\<rparr>"
    by (rule chunks_written) (use assms(1,2) in simp_all)
  have "handle_events lvl (map ReqData cs1 @ FileStreamOpen # map ReqData cs2) st
      = handle_events lvl (map ReqData cs2) ?b"
    unfolding handle_events_append handle_events.simps a b ..
  also note c
  also have "?b\<lparr>sp_files := (sp_files ?b)(p \<mapsto> concat cs1 @ concat cs2)\<rparr>
      = st\<lparr>sp_files := (sp_files st)(p \<mapsto> concat (cs1 @ cs2)), sp_stream_fd := True\<rparr>"
    by simp
  finally show ?thesis .
qed

text \<open>While the response has not finished, the reference stays and removals are counted.\<close>

lemma handle_event_keeps:
  assumes "sp_path st = Some p" and "req_tempFilePath (sp_req st) = JStr p" and "ev \<noteq> ResFinish"
  shows "sp_path (handle_event lvl ev st) = Some p"
    and "req_tempFilePath (sp_req (handle_event lvl ev st)) = JStr p"
    and "length (sp_unlinks (handle_event lvl ev st)) =
           length (sp_unlinks st) + (if is_stream_error ev then 1 else 0)"
    and "\<not> is_stream_error ev \<Longrightarrow> sp_unlinks (handle_event lvl ev st) = sp_unlinks st"
    and "\<not> is_stream_error ev \<Longrightarrow> sp_files st p \<noteq> None \<or> ev = FileStreamOpen
           \<Longrightarrow> sp_files (handle_event lvl ev st) p \<noteq> None"
proof -
  show "sp_path (handle_event lvl ev st) = Some p"
    using assms
    by (cases ev) (simp_all add: handle_event_def on_fileStream_open_def on_req_data_def
        on_fileStream_finish_def on_fileStream_error_def on_req_error_def Let_def
        split: sum.splits option.splits)
  show "req_tempFilePath (sp_req (handle_event lvl ev st)) = JStr p"
    using assms
    by (cases ev) (simp_all add: handle_event_def on_fileStream_open_def on_req_data_def
        on_fileStream_finish_def on_fileStream_error_def on_req_error_def Let_def
        split: sum.splits option.splits)
  show "length (sp_unlinks (handle_event lvl ev st)) =
           length (sp_unlinks st) + (if is_stream_error ev then 1 else 0)"
    using assms
    by (cases ev) (simp_all add: handle_event_def on_fileStream_open_def on_req_data_def
        on_fileStream_finish_def on_fileStream_error_def on_req_error_def Let_def
        split: sum.splits option.splits)
  show "sp_unlinks (handle_event lvl ev st) = sp_unlinks st" if "\<not> is_stream_error ev"
    using assms that
    by (cases ev) (simp_all add: handle_event_def on_fileStream_open_def on_req_data_def
        on_fileStream_finish_def on_req_error_def Let_def split: option.splits)
  show "sp_files (handle_event lvl ev st) p \<noteq> None"
    if "\<not> is_stream_error ev" and "sp_files st p \<noteq> None \<or> ev = FileStreamOpen"
    using assms that
    by (cases ev) (auto simp: handle_event_def on_fileStream_open_def on_req_data_def
        on_fileStream_finish_def on_req_error_def Let_def split: option.splits)
qed

lemma handle_events_keep:
  assumes "sp_path st = Some p" and "req_tempFilePath (sp_req st) = JStr p" and "ResFinish \<notin> set evs"
  shows "sp_path (handle_events lvl evs st) = Some p
       \<and> req_tempFilePath (sp_req (handle_events lvl evs st)) = JStr p
       \<and> length (sp_unlinks (handle_events lvl evs st)) =
           length (sp_unlinks st) + length (filter is_stream_error evs)"
  using assms
proof (induction evs arbitrary: st)
  case Nil
  then show ?case by simp
next
  case (Cons ev evs)
  from Cons.prems(3) have ne: "ev \<noteq> ResFinish" and rest: "ResFinish \<notin> set evs" by auto
  note k = handle_event_keeps(1-3) [OF Cons.prems(1,2) ne, of lvl]
  from Cons.IH [OF k(1) k(2) rest] k(3) show ?case by simp
qed

lemma handle_events_clean:
  assumes "sp_path st = Some p" and "req_tempFilePath (sp_req st) = JStr p"
    and "ResFinish \<notin> set evs" and "\<not> list_ex is_stream_error evs"
    and "sp_files st p \<noteq> None \<or> FileStreamOpen \<in> set evs"
  shows "sp_unlinks (handle_events lvl evs st) = sp_unlinks st
       \<and> sp_files (handle_events lvl evs st) p \<noteq> None"
  using assms
proof (induction evs arbitrary: st)
  case Nil
  then show ?case by simp
next
  case (Cons ev evs)
  from Cons.prems(3) have ne: "ev \<noteq> ResFinish" and rest: "ResFinish \<notin> set evs" by auto
  from Cons.prems(4) have nerr: "\<not> is_stream_error ev" and nerrs: "\<not> list_ex is_stream_error evs"
    by simp_all
  note k = handle_event_keeps [OF Cons.prems(1,2) ne, of lvl]
  have ex: "sp_files (handle_event lvl ev st) p \<noteq> None \<or> FileStreamOpen \<in> set evs"
  proof (cases "sp_files st p \<noteq> None \<or> ev = FileStreamOpen")
    case True
    from k(5) [OF nerr True] show ?thesis by simp
  next
    case False
    with Cons.prems(5) show ?thesis by auto
  qed
  from Cons.IH [OF k(1) k(2) rest nerrs ex] k(4) [OF nerr] show ?case by simp
qed

lemma on_res_finish_removes:
  assumes "sp_path st = Some p" and "req_tempFilePath (sp_req st) = JStr p" and "p \<noteq> []"
  shows "sp_files (handle_event lvl ResFinish st) p = None"
    and "sp_path (handle_event lvl ResFinish st) = Some p"
    and "sp_unlinks (handle_event lvl ResFinish st) = sp_unlinks st @ [(JStr p, sp_files st p \<noteq> None)]"
    and "sp_files st p \<noteq> None \<Longrightarrow> req_tempFilePath (sp_req (handle_event lvl ResFinish st)) = JNull"
  using assms
  by (auto simp: handle_event_def on_res_finish_def unlinkSync_def Let_def)

text \<open>Once the file is gone, only the opening of a write stream brings it back.\<close>

lemma handle_event_gone:
  assumes "sp_path st = Some p" and "sp_files st p = None" and "ev \<noteq> FileStreamOpen"
  shows "sp_path (handle_event lvl ev st) = Some p \<and> sp_files (handle_event lvl ev st) p = None"
  using assms
  by (cases ev; auto simp: handle_event_def on_req_data_def on_fileStream_finish_def
        on_fileStream_error_def on_res_finish_def on_req_error_def unlinkSync_def Let_def
        split: sum.splits option.splits jsval.splits)

lemma handle_events_gone:
  assumes "sp_path st = Some p" and "sp_files st p = None" and "FileStreamOpen \<notin> set evs"
  shows "sp_files (handle_events lvl evs st) p = None"
  using assms
proof (induction evs arbitrary: st)
  case Nil
  then show ?case by simp
next
  case (Cons ev evs)
  from Cons.prems(3) have ne: "ev \<noteq> FileStreamOpen" and rest: "FileStreamOpen \<notin> set evs" by auto
  from handle_event_gone [OF Cons.prems(1,2) ne, of lvl] Cons.IH [OF _ _ rest] show ?case by simp
qed

lemma path_join_nonempty: "path_join dir name \<noteq> []"
  by (simp add: path_join_def)

lemma sample_upload_eq:
  "sample_upload =
     \<lparr>sp_req = (upload_request ''POST'' ''multipart/form-data; boundary=x'')
                 \<lparr>req_tempFilePath := JStr sample_path\<rparr>,
      sp_path = Some sample_path, sp_files = no_files, sp_stream_open = True,
      sp_stream_fd = False, sp_stream_buffer = [], sp_console = [],
      sp_next = [], sp_unlinks = []\<rparr>"
  by (simp add: sample_upload_def multipartMiddleware_def upload_request_def header_def
      path_join_def tempFileName_def toString_hex_def hex_byte_def digit_char_def
      sample_bytes_def sample_path_def logMessage_def Let_def)

lemma after_piping:
  "handle_events lvl (map ReqData cs1 @ FileStreamOpen # map ReqData cs2 @ [ev]) st
     = handle_event lvl ev (handle_events lvl (map ReqData cs1 @ FileStreamOpen # map ReqData cs2) st)"
  using handle_events_append [of lvl "map ReqData cs1 @ FileStreamOpen # map ReqData cs2" "[ev]" st]
  by simp

text \<open>
  C5 (as stated, refuted): the claim has every request with a \<open>multipart/*\<close> content
  type spooled. A \<open>PUT\<close> with \<open>multipart/form-data\<close> and a \<open>POST\<close> with
  \<open>multipart/mixed\<close> both go straight to \<open>next()\<close>: no file, no annotation.
\<close>

theorem C5_other_multipart_not_spooled_counterexample:
  "prefix ''multipart/'' ''multipart/form-data; boundary=x''
   \<and> multipartMiddleware 2 ''/tmp'' sample_bytes
        (upload_request ''PUT'' ''multipart/form-data; boundary=x'') no_files []
       = \<lparr>sp_req = upload_request ''PUT'' ''multipart/form-data; boundary=x'', sp_path = None,
          sp_files = no_files, sp_stream_open = False, sp_stream_fd = False,
          sp_stream_buffer = [], sp_console = [], sp_next = [None], sp_unlinks = []\<rparr>
   \<and> prefix ''multipart/'' ''multipart/mixed; boundary=x''
   \<and> multipartMiddleware 2 ''/tmp'' sample_bytes
        (upload_request ''POST'' ''multipart/mixed; boundary=x'') no_files []
       = \<lparr>sp_req = upload_request ''POST'' ''multipart/mixed; boundary=x'', sp_path = None,
          sp_files = no_files, sp_stream_open = False, sp_stream_fd = False,
          sp_stream_buffer = [], sp_console = [], sp_next = [None], sp_unlinks = []\<rparr>"
  by (simp add: multipartMiddleware_def upload_request_def header_def)

text \<open>
  C5 (amended): for every \<open>POST\<close> request whose content type contains
  \<open>multipart/form-data\<close>, the middleware does not read or parse the body; it pipes the
  request into a temporary file named \<open>upload-\<close> plus the hexadecimal digits of the
  random bytes (different bytes give a different name), and the request carries the
  path of that file as soon as the middleware has set the stream up, before the next
  handler is called. The file receives the chunks of the body as they are, in the
  order of their arrival, whether they arrive before or after the stream has opened
  the file; when the stream finishes the next handler is called. On a stream error the
  file is removed, if the stream had created it, and the error is passed to the next
  handler. Every other request, of another method or without \<open>multipart/form-data\<close>
  in its content type, is passed on at once, without a file, an annotation or a
  handler.
\<close>

theorem C5_multipart_post_is_spooled:
  assumes "st = multipartMiddleware lvl tmpdir randomBytes req files out"
    and "p = path_join tmpdir (tempFileName randomBytes)"
    and "saved = handle_events lvl
                   (map ReqData cs1 @ FileStreamOpen # map ReqData cs2 @ [FileStreamFinish]) st"
    and "failed = handle_events lvl
                    (map ReqData cs1 @ FileStreamOpen # map ReqData cs2 @ [FileStreamError err]) st"
  shows "(req_method req = ''POST'' \<and> header req ''content-type'' = Some ct
            \<and> str_includes ct ''multipart/form-data'' \<longrightarrow>
            req_tempFilePath (sp_req st) = JStr p \<and> sp_path st = Some p \<and> sp_next st = []
            \<and> sp_files st = files \<and> req_body (sp_req st) = req_body req
            \<and> sp_files saved = files(p \<mapsto> concat (cs1 @ cs2)) \<and> sp_next saved = [None]
            \<and> sp_req saved = sp_req st \<and> sp_unlinks saved = []
            \<and> sp_files failed = files(p := None) \<and> sp_next failed = [Some err]
            \<and> sp_unlinks failed = [(JStr p, True)]
            \<and> sp_files (handle_event lvl (FileStreamError err) st) p = None
            \<and> sp_next (handle_event lvl (FileStreamError err) st) = [Some err]
            \<and> ((\<forall>b \<in> set randomBytes. b < 256) \<and> (\<forall>b \<in> set otherBytes. b < 256)
                  \<and> path_join tmpdir (tempFileName otherBytes) = p \<longrightarrow> otherBytes = randomBytes))
       \<and> (req_method req \<noteq> ''POST'' \<or> header req ''content-type'' = None
            \<or> (header req ''content-type'' = Some ct \<and> \<not> str_includes ct ''multipart/form-data'') \<longrightarrow>
            st = \<lparr>sp_req = req, sp_path = None, sp_files = files, sp_stream_open = False,
                  sp_stream_fd = False, sp_stream_buffer = [], sp_console = out,
                  sp_next = [None], sp_unlinks = []\<rparr>
            \<and> handle_events lvl evs st = st)"
proof -
  have spooled: "req_tempFilePath (sp_req st) = JStr p \<and> sp_path st = Some p \<and> sp_next st = []
      \<and> sp_files st = files \<and> req_body (sp_req st) = req_body req
      \<and> sp_files saved = files(p \<mapsto> concat (cs1 @ cs2)) \<and> sp_next saved = [None]
      \<and> sp_req saved = sp_req st \<and> sp_unlinks saved = []
      \<and> sp_files failed = files(p := None) \<and> sp_next failed = [Some err]
      \<and> sp_unlinks failed = [(JStr p, True)]
      \<and> sp_files (handle_event lvl (FileStreamError err) st) p = None
      \<and> sp_next (handle_event lvl (FileStreamError err) st) = [Some err]
      \<and> ((\<forall>b \<in> set randomBytes. b < 256) \<and> (\<forall>b \<in> set otherBytes. b < 256)
            \<and> path_join tmpdir (tempFileName otherBytes) = p \<longrightarrow> otherBytes = randomBytes)"
    if c: "req_method req = ''POST''" "header req ''content-type'' = Some ct"
      "str_includes ct ''multipart/form-data''"
  proof -
    note eq = multipartMiddleware_spools [OF c, of lvl tmpdir randomBytes files out]
    from eq assms(1,2) have start: "req_tempFilePath (sp_req st) = JStr p" "sp_path st = Some p"
      "sp_next st = []" "sp_files st = files" "req_body (sp_req st) = req_body req"
      "sp_stream_open st" "\<not> sp_stream_fd st" "sp_stream_buffer st = []" "sp_unlinks st = []"
      by simp_all
    define mid where "mid = st\<lparr>sp_files := (sp_files st)(p \<mapsto> concat (cs1 @ cs2)), sp_stream_fd := True\<rparr>"
    have mid: "handle_events lvl (map ReqData cs1 @ FileStreamOpen # map ReqData cs2) st = mid"
      unfolding mid_def by (rule piped) (use start in simp_all)
    have m: "sp_path mid = Some p" "sp_files mid = files(p \<mapsto> concat (cs1 @ cs2))"
      "sp_next mid = []" "sp_req mid = sp_req st" "sp_unlinks mid = []"
      using start by (simp_all add: mid_def)
    have s: "saved = handle_event lvl FileStreamFinish mid"
      and f: "failed = handle_event lvl (FileStreamError err) mid"
      by (simp_all add: assms(3,4) after_piping mid)
    from m have saved: "sp_files saved = files(p \<mapsto> concat (cs1 @ cs2))" "sp_next saved = [None]"
      "sp_req saved = sp_req st" "sp_unlinks saved = []"
      by (simp_all add: s handle_event_def on_fileStream_finish_def)
    from m have failed: "sp_files failed = files(p := None)" "sp_next failed = [Some err]"
      "sp_unlinks failed = [(JStr p, True)]"
      by (simp_all add: f handle_event_def on_fileStream_error_def unlinkSync_def Let_def)
    from start have early: "sp_files (handle_event lvl (FileStreamError err) st) p = None"
      "sp_next (handle_event lvl (FileStreamError err) st) = [Some err]"
      by (auto simp: handle_event_def on_fileStream_error_def unlinkSync_def Let_def)
    have inj: "(\<forall>b \<in> set randomBytes. b < 256) \<and> (\<forall>b \<in> set otherBytes. b < 256)
        \<and> path_join tmpdir (tempFileName otherBytes) = p \<longrightarrow> otherBytes = randomBytes"
      using temp_path_inj [of otherBytes randomBytes tmpdir] assms(2) by blast
    from start(1-5) saved failed early inj show ?thesis by blast
  qed
  have passed: "st = \<lparr>sp_req = req, sp_path = None, sp_files = files, sp_stream_open = False,
                  sp_stream_fd = False, sp_stream_buffer = [], sp_console = out,
                  sp_next = [None], sp_unlinks = []\<rparr>
            \<and> handle_events lvl evs st = st"
    if c: "req_method req \<noteq> ''POST'' \<or> header req ''content-type'' = None
            \<or> (header req ''content-type'' = Some ct \<and> \<not> str_includes ct ''multipart/form-data'')"
  proof -
    note eq = multipartMiddleware_passes [OF c, of lvl tmpdir randomBytes files out]
    with assms(1) have e: "st = \<lparr>sp_req = req, sp_path = None, sp_files = files,
        sp_stream_open = False, sp_stream_fd = False, sp_stream_buffer = [], sp_console = out,
        sp_next = [None], sp_unlinks = []\<rparr>"
      by simp
    then have "sp_path st = None" by simp
    then have "handle_events lvl evs st = st" by (rule handle_events_unregistered)
    with e show ?thesis by blast
  qed
  from spooled passed show ?thesis by blast
qed

theorem C5_multipart_post_is_spooled_witness:
  "req_tempFilePath (sp_req sample_upload) = JStr sample_path
   \<and> sp_next sample_upload = []
   \<and> sp_files (handle_events 2 [ReqData [45, 45], FileStreamOpen, ReqData [120, 13], ReqData [10],
                                 FileStreamFinish] sample_upload)
       = no_files(sample_path \<mapsto> [45, 45, 120, 13, 10])
   \<and> sp_next (handle_events 2 [ReqData [45, 45], FileStreamOpen, ReqData [120, 13], ReqData [10],
                                FileStreamFinish] sample_upload) = [None]
   \<and> sp_files (handle_events 2 [ReqData [45, 45], FileStreamOpen, ReqData [120, 13], ReqData [10],
                                 FileStreamError (JStr ''EIO'')] sample_upload) = no_files
   \<and> sp_next (handle_events 2 [ReqData [45, 45], FileStreamOpen, ReqData [120, 13], ReqData [10],
                                FileStreamError (JStr ''EIO'')] sample_upload) = [Some (JStr ''EIO'')]
   \<and> sp_unlinks (handle_events 2 [ReqData [45, 45], FileStreamOpen, ReqData [120, 13], ReqData [10],
                                   FileStreamError (JStr ''EIO'')] sample_upload)
       = [(JStr sample_path, True)]
   \<and> handle_events 2 [ReqData [45, 45], FileStreamOpen, FileStreamFinish, ResFinish]
        (multipartMiddleware 2 ''/tmp'' sample_bytes (upload_request ''POST'' ''application/json'')
           no_files [])
       = \<lparr>sp_req = upload_request ''POST'' ''application/json'', sp_path = None,
          sp_files = no_files, sp_stream_open = False, sp_stream_fd = False,
          sp_stream_buffer = [], sp_console = [], sp_next = [None], sp_unlinks = []\<rparr>"
proof -
  let ?req = "upload_request ''POST'' ''multipart/form-data; boundary=x''"
  have a: "req_method ?req = ''POST''" by (simp add: upload_request_def)
  have b: "header ?req ''content-type'' = Some ''multipart/form-data; boundary=x''"
    by (simp add: upload_request_def header_def)
  have c: "str_includes ''multipart/form-data; boundary=x'' ''multipart/form-data''" by simp
  have d: "sample_upload = multipartMiddleware 2 ''/tmp'' sample_bytes ?req no_files []"
    by (simp add: sample_upload_def)
  have e: "sample_path = path_join ''/tmp'' (tempFileName sample_bytes)"
    by (simp add: sample_path_def path_join_def tempFileName_def toString_hex_def hex_byte_def
        digit_char_def sample_bytes_def)
  have t1: "[ReqData [45, 45], FileStreamOpen, ReqData [120, 13], ReqData [10], ev]
      = map ReqData [[45, 45]] @ FileStreamOpen # map ReqData [[120, 13], [10]] @ [ev]" for ev
    by simp
  have g: "no_files(sample_path := None) = no_files" by (simp add: no_files_def)
  let ?other = "upload_request ''POST'' ''application/json''"
  have o: "header ?other ''content-type'' = Some ''application/json''
      \<and> \<not> str_includes ''application/json'' ''multipart/form-data''"
    by (simp add: upload_request_def header_def)
  from C5_multipart_post_is_spooled [OF refl refl refl refl, where req = ?other and lvl = 2
      and tmpdir = "''/tmp''" and randomBytes = sample_bytes and files = no_files and out = "[]"
      and ct = "''application/json''"
      and evs = "[ReqData [45, 45], FileStreamOpen, FileStreamFinish, ResFinish]",
      THEN conjunct2] o
  have m: "multipartMiddleware 2 ''/tmp'' sample_bytes ?other no_files []
       = \<lparr>sp_req = ?other, sp_path = None,
          sp_files = no_files, sp_stream_open = False, sp_stream_fd = False,
          sp_stream_buffer = [], sp_console = [], sp_next = [None], sp_unlinks = []\<rparr>"
    and h: "handle_events 2 [ReqData [45, 45], FileStreamOpen, FileStreamFinish, ResFinish]
        (multipartMiddleware 2 ''/tmp'' sample_bytes ?other no_files [])
       = multipartMiddleware 2 ''/tmp'' sample_bytes ?other no_files []"
    by blast+
  from h m
  have passed: "handle_events 2 [ReqData [45, 45], FileStreamOpen, FileStreamFinish, ResFinish]
        (multipartMiddleware 2 ''/tmp'' sample_bytes ?other no_files [])
       = \<lparr>sp_req = ?other, sp_path = None,
          sp_files = no_files, sp_stream_open = False, sp_stream_fd = False,
          sp_stream_buffer = [], sp_console = [], sp_next = [None], sp_unlinks = []\<rparr>"
    by (rule trans)
  from C5_multipart_post_is_spooled [OF d e refl refl, where ?cs1.0 = "[[45, 45]]"
      and ?cs2.0 = "[[120, 13], [10]]" and err = "JStr ''EIO''" and ct = "''multipart/form-data; boundary=x''"]
    a b c
  have spooled: "req_tempFilePath (sp_req sample_upload) = JStr sample_path
   \<and> sp_next sample_upload = []
   \<and> sp_files (handle_events 2 [ReqData [45, 45], FileStreamOpen, ReqData [120, 13], ReqData [10],
                                 FileStreamFinish] sample_upload)
       = no_files(sample_path \<mapsto> [45, 45, 120, 13, 10])
   \<and> sp_next (handle_events 2 [ReqData [45, 45], FileStreamOpen, ReqData [120, 13], ReqData [10],
                                FileStreamFinish] sample_upload) = [None]
   \<and> sp_files (handle_events 2 [ReqData [45, 45], FileStreamOpen, ReqData [120, 13], ReqData [10],
                                 FileStreamError (JStr ''EIO'')] sample_upload) = no_files
   \<and> sp_next (handle_events 2 [ReqData [45, 45], FileStreamOpen, ReqData [120, 13], ReqData [10],
                                FileStreamError (JStr ''EIO'')] sample_upload) = [Some (JStr ''EIO'')]
   \<and> sp_unlinks (handle_events 2 [ReqData [45, 45], FileStreamOpen, ReqData [120, 13], ReqData [10],
                                   FileStreamError (JStr ''EIO'')] sample_upload)
       = [(JStr sample_path, True)]"
    unfolding t1 by (simp add: g)
  from spooled passed show ?thesis by blast
qed

text \<open>
  C3 (as stated, refuted): the claim has exactly one cleanup path fire per request, on
  response completion. After an error of the spool stream two removals are attempted:
  the handler of the stream error removes the file, and the handler of the response's
  \<open>finish\<close> tries again.
\<close>

theorem C3_two_cleanups_counterexample:
  "sp_unlinks (handle_events 2 [FileStreamOpen, ReqData [45, 45], FileStreamError (JStr ''EIO''),
                                ResFinish] sample_upload)
     = [(JStr sample_path, True), (JStr sample_path, False)]"
  by (simp add: sample_upload_eq handle_event_def on_fileStream_open_def on_req_data_def
      on_fileStream_error_def on_res_finish_def unlinkSync_def sample_path_def logMessage_def
      no_files_def Let_def)

text \<open>
  C3 (amended): for every request whose body is spooled, two handlers remove the
  temporary file: the handler of a spool stream error, at once, and the handler of the
  response's \<open>finish\<close>, whatever happened to the streams before (success, stream
  errors, request errors). Right after a stream error the file does not exist. When
  the response has completed, the number of removal attempts is one more than the
  number of spool stream errors, and the file does not exist, and it stays away
  whatever follows, as long as the write stream does not open the file only then. When the stream has opened the file and has met no error before
  the response completes, that completion is the one cleanup: a single removal, which
  succeeds, and the reference on the request is cleared.
\<close>

theorem C3_cleanup_on_response_finish:
  assumes "st0 = multipartMiddleware lvl tmpdir randomBytes req files out"
    and "sp_path st0 = Some p"
    and "ResFinish \<notin> set pre"
    and "completed = handle_events lvl (pre @ [ResFinish]) st0"
  shows "(FileStreamOpen \<notin> set post \<longrightarrow> sp_files (handle_events lvl post completed) p = None)
       \<and> length (sp_unlinks completed) = length (filter is_stream_error pre) + 1
       \<and> (FileStreamOpen \<in> set pre \<and> \<not> list_ex is_stream_error pre \<longrightarrow>
            sp_unlinks completed = [(JStr p, True)]
            \<and> req_tempFilePath (sp_req completed) = JNull)
       \<and> sp_files (handle_events lvl (pre @ [FileStreamError err]) st0) p = None"
proof -
  define st1 where "st1 = handle_events lvl pre st0"
  have comp: "completed = handle_event lvl ResFinish st1"
    by (simp add: assms(4) st1_def handle_events_append)
  note m = multipartMiddleware_path [OF assms(2) [unfolded assms(1)]]
  from m(1) have ne: "p \<noteq> []" by (simp add: path_join_nonempty)
  from m(2) assms(1) have r0: "req_tempFilePath (sp_req st0) = JStr p" by simp
  from m(3) assms(1) have u0: "sp_unlinks st0 = []" by simp
  from handle_events_keep [OF assms(2) r0 assms(3), of lvl] u0
  have p1: "sp_path st1 = Some p" and r1: "req_tempFilePath (sp_req st1) = JStr p"
    and u1: "length (sp_unlinks st1) = length (filter is_stream_error pre)"
    by (simp_all add: st1_def)
  note f = on_res_finish_removes [OF p1 r1 ne, of lvl]
  have gone: "FileStreamOpen \<notin> set post \<longrightarrow> sp_files (handle_events lvl post completed) p = None"
    using handle_events_gone [of completed p post lvl] f(1,2) by (simp add: comp)
  have count: "length (sp_unlinks completed) = length (filter is_stream_error pre) + 1"
    using f(3) u1 by (simp add: comp)
  have clean: "FileStreamOpen \<in> set pre \<and> \<not> list_ex is_stream_error pre \<longrightarrow>
      sp_unlinks completed = [(JStr p, True)] \<and> req_tempFilePath (sp_req completed) = JNull"
  proof
    assume c: "FileStreamOpen \<in> set pre \<and> \<not> list_ex is_stream_error pre"
    then have "sp_files st0 p \<noteq> None \<or> FileStreamOpen \<in> set pre" by simp
    from handle_events_clean [OF assms(2) r0 assms(3) _ this, of lvl] c u0
    have "sp_unlinks st1 = []" and ex: "sp_files st1 p \<noteq> None"
      by (simp_all add: st1_def)
    with f(3) f(4) [OF ex]
    show "sp_unlinks completed = [(JStr p, True)] \<and> req_tempFilePath (sp_req completed) = JNull"
      by (simp add: comp)
  qed
  have at_once: "sp_files (handle_events lvl (pre @ [FileStreamError err]) st0) p = None"
    using p1
    by (auto simp: handle_events_append st1_def [symmetric] handle_event_def
        on_fileStream_error_def unlinkSync_def Let_def)
  from gone count clean at_once show ?thesis by blast
qed

theorem C3_cleanup_on_response_finish_witness:
  "sp_files (handle_events 2 [FileStreamOpen, ReqData [45, 45], FileStreamFinish, ResFinish,
                              ReqData [45], FileStreamFinish] sample_upload) sample_path = None
   \<and> sp_unlinks (handle_events 2 [FileStreamOpen, ReqData [45, 45], FileStreamFinish, ResFinish]
                    sample_upload) = [(JStr sample_path, True)]
   \<and> req_tempFilePath (sp_req (handle_events 2
        [FileStreamOpen, ReqData [45, 45], FileStreamFinish, ResFinish] sample_upload)) = JNull
   \<and> sp_files (handle_events 2 [FileStreamOpen, ReqData [45, 45], FileStreamFinish,
                                 FileStreamError (JStr ''EIO'')] sample_upload) sample_path = None"
proof -
  let ?req = "upload_request ''POST'' ''multipart/form-data; boundary=x''"
  let ?pre = "[FileStreamOpen, ReqData [45, 45], FileStreamFinish]"
  let ?post = "[ReqData [45], FileStreamFinish]"
  have a: "sample_upload = multipartMiddleware 2 ''/tmp'' sample_bytes ?req no_files []"
    by (simp add: sample_upload_def)
  have b: "sp_path sample_upload = Some sample_path" by (simp add: sample_upload_eq)
  have c: "ResFinish \<notin> set ?pre" by simp
  have d: "FileStreamOpen \<notin> set ?post" by simp
  have e: "FileStreamOpen \<in> set ?pre \<and> \<not> list_ex is_stream_error ?pre" by simp
  have t: "handle_events 2 [FileStreamOpen, ReqData [45, 45], FileStreamFinish, ResFinish, ReqData [45],
        FileStreamFinish] sample_upload
      = handle_events 2 ?post (handle_events 2 (?pre @ [ResFinish]) sample_upload)"
    using handle_events_append [of 2 "?pre @ [ResFinish]" ?post sample_upload] by simp
  from C3_cleanup_on_response_finish [OF a b c refl, where post = ?post and err = "JStr ''EIO''"] d e
  show ?thesis unfolding t by simp
qed

end
